theory Spec2Isabelle
  imports Complex_Main
begin

section \<open>JavaScript numbers\<close>

text \<open>
  A JavaScript number is an IEEE 754 binary64 value: \<open>NaN\<close>, one of the two infinities,
  or a finite real that binary64 represents. An arithmetic operation on finite numbers
  gives the exact result rounded to the nearest representable value, a tie going to the
  even significand (\<open>round64\<close>); beyond the largest finite value the result is an infinity.
  The sign of zero is not modelled: \<open>-0\<close> and \<open>0\<close> compare equal, \<open>JSON.stringify\<close>
  prints both as \<open>0\<close>, and the relay never divides by a zero.
\<close>

datatype jsnum = NaN | PInf | NInf | Fin real

text \<open>\<open>pow2 k\<close> is \<open>2\<close> to the power \<open>k\<close>, for any integer \<open>k\<close>.\<close>

definition pow2 :: "int \<Rightarrow> real" where
  "pow2 k = (if 0 \<le> k then 2 ^ nat k else 1 / 2 ^ nat (- k))"

text \<open>
  The exponent \<open>k\<close> of the unit in the last place of a positive real \<open>a\<close>: the one with
  \<open>pow2 (k + 52) \<le> a < pow2 (k + 53)\<close>, kept within \<open>-1074\<close> (the subnormal numbers)
  and \<open>971\<close> (the largest binade). The two searches step from the binade of \<open>1\<close>.
\<close>

function expUp :: "int \<Rightarrow> real \<Rightarrow> int" where
  "expUp k a = (if 971 \<le> k \<or> a < pow2 (k + 53) then k else expUp (k + 1) a)"
  by pat_completeness auto
termination
  by (relation "measure (\<lambda>(k, a). nat (971 - k))") auto

function expDown :: "int \<Rightarrow> real \<Rightarrow> int" where
  "expDown k a = (if k \<le> - 1074 \<or> pow2 (k + 52) \<le> a then k else expDown (k - 1) a)"
  by pat_completeness auto
termination
  by (relation "measure (\<lambda>(k, a). nat (k + 1074))") auto

declare expUp.simps [simp del]

declare expDown.simps [simp del]

definition ulpExponent :: "real \<Rightarrow> int" where
  "ulpExponent a = (if 2 \<le> a then expUp (- 51) a else expDown (- 52) a)"

text \<open>The nearest integer, a tie going to the even one.\<close>

definition roundHalfEven :: "real \<Rightarrow> int" where
  "roundHalfEven q =
     (if q - of_int \<lfloor>q\<rfloor> < 1 / 2 then \<lfloor>q\<rfloor>
      else if 1 / 2 < q - of_int \<lfloor>q\<rfloor> then \<lfloor>q\<rfloor> + 1
      else if even \<lfloor>q\<rfloor> then \<lfloor>q\<rfloor> else \<lfloor>q\<rfloor> + 1)"

text \<open>
  The number with significand \<open>n\<close> at exponent \<open>k\<close>: an infinity when it reaches
  \<open>pow2 1024\<close>, which only the largest binade can.
\<close>

definition pack :: "bool \<Rightarrow> int \<Rightarrow> int \<Rightarrow> jsnum" where
  "pack negative k n =
     (if 971 \<le> k \<and> 2 ^ 53 \<le> n then (if negative then NInf else PInf)
      else Fin ((if negative then - 1 else 1) * of_int n * pow2 k))"

definition roundAt :: "int \<Rightarrow> real \<Rightarrow> jsnum" where
  "roundAt k x = pack (x < 0) k (roundHalfEven (\<bar>x\<bar> / pow2 k))"

definition round64 :: "real \<Rightarrow> jsnum" where
  "round64 x = roundAt (ulpExponent \<bar>x\<bar>) x"

text \<open>The sign of a number that is not \<open>NaN\<close>, and the infinity (or \<open>NaN\<close>) of a sign.\<close>

fun signOf :: "jsnum \<Rightarrow> real" where
  "signOf (Fin x) = sgn x"
| "signOf PInf = 1"
| "signOf NInf = - 1"
| "signOf NaN = 0"

definition ofSign :: "real \<Rightarrow> jsnum" where
  "ofSign s = (if s = 0 then NaN else if 0 < s then PInf else NInf)"

text \<open>\<open>a + b\<close>, \<open>-a\<close>, \<open>a - b\<close>, \<open>a * b\<close>, \<open>a / b\<close>, \<open>Math.abs(a)\<close>, \<open>a < b\<close> and \<open>a <= b\<close>.\<close>

fun jadd :: "jsnum \<Rightarrow> jsnum \<Rightarrow> jsnum" where
  "jadd (Fin x) (Fin y) = round64 (x + y)"
| "jadd NaN _ = NaN"
| "jadd _ NaN = NaN"
| "jadd PInf NInf = NaN"
| "jadd NInf PInf = NaN"
| "jadd PInf _ = PInf"
| "jadd _ PInf = PInf"
| "jadd NInf _ = NInf"
| "jadd _ NInf = NInf"

fun jneg :: "jsnum \<Rightarrow> jsnum" where
  "jneg (Fin x) = Fin (- x)"
| "jneg PInf = NInf"
| "jneg NInf = PInf"
| "jneg NaN = NaN"

definition jsub :: "jsnum \<Rightarrow> jsnum \<Rightarrow> jsnum" where
  "jsub a b = jadd a (jneg b)"

fun jmul :: "jsnum \<Rightarrow> jsnum \<Rightarrow> jsnum" where
  "jmul (Fin x) (Fin y) = round64 (x * y)"
| "jmul NaN _ = NaN"
| "jmul _ NaN = NaN"
| "jmul a b = ofSign (signOf a * signOf b)"

text \<open>
  A finite number over zero is an infinity of the sign of the dividend (\<open>0 / 0\<close> is
  \<open>NaN\<close>), the zero being \<open>+0\<close>; the only divisor in the code is the length of a
  non-empty array.
\<close>

fun jdiv :: "jsnum \<Rightarrow> jsnum \<Rightarrow> jsnum" where
  "jdiv (Fin x) (Fin y) = (if y = 0 then ofSign (sgn x) else round64 (x / y))"
| "jdiv NaN _ = NaN"
| "jdiv _ NaN = NaN"
| "jdiv (Fin x) _ = Fin 0"
| "jdiv a (Fin y) = ofSign (signOf a * (if y < 0 then - 1 else 1))"
| "jdiv _ _ = NaN"

fun jabs :: "jsnum \<Rightarrow> jsnum" where
  "jabs (Fin x) = Fin \<bar>x\<bar>"
| "jabs PInf = PInf"
| "jabs NInf = PInf"
| "jabs NaN = NaN"

fun jlt :: "jsnum \<Rightarrow> jsnum \<Rightarrow> bool" where
  "jlt (Fin x) (Fin y) = (x < y)"
| "jlt NaN _ = False"
| "jlt _ NaN = False"
| "jlt PInf _ = False"
| "jlt _ NInf = False"
| "jlt NInf _ = True"
| "jlt _ PInf = True"

definition jle :: "jsnum \<Rightarrow> jsnum \<Rightarrow> bool" where
  "jle a b = (a \<noteq> NaN \<and> b \<noteq> NaN \<and> \<not> jlt b a)"

section \<open>JavaScript values, as far as the relay touches them\<close>

text \<open>
  A value is \<open>undefined\<close> or a parsed JSON value. An object is the list of its own
  properties (each key once).
\<close>

datatype val =
    Undefined
  | Null
  | Bool bool
  | Num jsnum
  | Str string
  | Arr "val list"
  | Obj "(string \<times> val) list"

datatype error = FetchError | SyntaxError | TypeError

text \<open>
  \<open>v.k\<close> for the data property names the relay reads (\<open>data\<close>, \<open>cert\<close>,
  \<open>asset\<close>, \<open>id\<close>, \<open>marketTransactions\<close>, \<open>price\<close>, \<open>date\<close>), none of
  which is a built-in property: reading a property of \<open>undefined\<close> or \<open>null\<close> throws a
  TypeError, an object gives its own property or \<open>undefined\<close>, every other value gives
  \<open>undefined\<close>.
\<close>

fun getProp :: "val \<Rightarrow> string \<Rightarrow> error + val" where
  "getProp Undefined k = Inl TypeError"
| "getProp Null k = Inl TypeError"
| "getProp (Obj kvs) k = Inr (case map_of kvs k of None \<Rightarrow> Undefined | Some v \<Rightarrow> v)"
| "getProp _ k = Inr Undefined"

text \<open>A chain \<open>v.k1.k2...\<close>, evaluated left to right; the first throw ends it.\<close>

fun path :: "val \<Rightarrow> string list \<Rightarrow> error + val" where
  "path v [] = Inr v"
| "path v (k # ks) = (case getProp v k of Inl e \<Rightarrow> Inl e | Inr w \<Rightarrow> path w ks)"

text \<open>
  A query parameter of the request is absent or a string. \<open>p ? a : b\<close> and \<open>!p\<close>
  take an absent parameter and the empty string as false.
\<close>

fun truthy :: "string option \<Rightarrow> bool" where
  "truthy None = False"
| "truthy (Some s) = (s \<noteq> [])"

section \<open>The upstream service\<close>

text \<open>
  The two outbound calls. \<open>Cert\<close> carries the \<open>certNumber\<close> variable,
  \<open>AssetMarketTransactions\<close> the \<open>id\<close> and the \<open>gradingCompany\<close> and
  \<open>gradeNumber\<close> of its filter (\<open>showSkipped\<close> is always true).
\<close>

datatype request =
    Cert string
  | AssetMarketTransactions val string string

text \<open>
  \<open>fetch\<close> rejects, or resolves with a response: its HTTP status and what
  \<open>response.json()\<close> makes of the body (\<open>None\<close> when the body is not JSON).
  The upstream may answer the same request differently over time, so its answer depends on
  the requests sent before; that list of requests is also the trace the theorems count.
\<close>

datatype fetch_result = Rejected | Responded nat "val option"

type_synonym upstream = "request list \<Rightarrow> request \<Rightarrow> fetch_result"

text \<open>\<open>const response = await fetch(...); const data = await response.json();\<close>\<close>

definition fetch_json :: "upstream \<Rightarrow> request list \<Rightarrow> request \<Rightarrow> error + val" where
  "fetch_json up sent req =
     (case up sent req of
        Rejected \<Rightarrow> Inl FetchError
      | Responded status None \<Rightarrow> Inl SyntaxError
      | Responded status (Some data) \<Rightarrow> Inr data)"

section \<open>Resolver\<close>

text \<open>
  One \<open>Cert\<close> query, then \<open>data.data.cert.asset.id\<close>. The later server logs
  \<open>data.data.cert.asset.id\<close> and \<open>data.data.cert.asset.name\<close> before returning;
  these reads throw exactly when the returned chain throws.
\<close>

definition getInternalId :: "upstream \<Rightarrow> string \<Rightarrow> request list \<Rightarrow> request list \<times> (error + val)" where
  "getInternalId up slabNumber sent =
     (let req = Cert slabNumber in
      (sent @ [req],
       case fetch_json up sent req of
         Inl e \<Rightarrow> Inl e
       | Inr data \<Rightarrow> path data [''data'', ''cert'', ''asset'', ''id'']))"

section \<open>Price aggregator\<close>

record transaction =
  price :: val
  date :: val
  gradingCompany :: string
  gradeNumber :: string

text \<open>\<open>ms.map((m) => ({price: m.price, date: m.date, gradingCompany: company, gradeNumber: grade}))\<close>\<close>

fun tag :: "string \<Rightarrow> string \<Rightarrow> val list \<Rightarrow> error + transaction list" where
  "tag company grade [] = Inr []"
| "tag company grade (m # ms) =
     (case getProp m ''price'' of
        Inl e \<Rightarrow> Inl e
      | Inr p \<Rightarrow>
          (case getProp m ''date'' of
             Inl e \<Rightarrow> Inl e
           | Inr d \<Rightarrow>
               (case tag company grade ms of
                  Inl e \<Rightarrow> Inl e
                | Inr ts \<Rightarrow>
                    Inr (\<lparr>price = p, date = d, gradingCompany = company, gradeNumber = grade\<rparr> # ts))))"

text \<open>\<open>data.data.asset.marketTransactions.map(...)\<close>: only an array has \<open>map\<close>.\<close>

definition marketTransactions :: "val \<Rightarrow> string \<Rightarrow> string \<Rightarrow> error + transaction list" where
  "marketTransactions data company grade =
     (case path data [''data'', ''asset'', ''marketTransactions''] of
        Inl e \<Rightarrow> Inl e
      | Inr (Arr ms) \<Rightarrow> tag company grade ms
      | Inr _ \<Rightarrow> Inl TypeError)"

text \<open>\<open>p ? [p] : dflt\<close> for a query parameter \<open>p\<close>.\<close>

fun orDefault :: "string option \<Rightarrow> string list \<Rightarrow> string list" where
  "orDefault None dflt = dflt"
| "orDefault (Some s) dflt = (if s \<noteq> [] then [s] else dflt)"

text \<open>
  \<open>gradeNumbers[company]\<close>: the object has the keys \<open>PSA\<close> and \<open>BGS\<close> only; for any
  other company the lookup gives nothing that \<open>for ... of\<close> can iterate, and the loop
  throws a TypeError. Below, \<open>gc\<close> and \<open>gn\<close> are the parameters \<open>gradingCompany\<close>
  and \<open>gradeNumber\<close> of \<open>getPrices\<close>.
\<close>

definition gradeNumbers :: "string option \<Rightarrow> string \<Rightarrow> string list option" where
  "gradeNumbers gn company =
     (if company = ''PSA'' then Some (orDefault gn [''9.0'', ''10.0''])
      else if company = ''BGS'' then Some (orDefault gn [''9.0'', ''9.5'', ''10.0''])
      else None)"

definition gradingCompanies :: "string option \<Rightarrow> string list" where
  "gradingCompanies gc = orDefault gc [''PSA'', ''BGS'']"

text \<open>
  The inner loop over the grades of one company. The state is the trace and
  \<open>allTransactions\<close>; a throw keeps the trace and drops the transactions. \<open>break\<close>
  leaves this loop only.
\<close>

fun gradeLoop :: "upstream \<Rightarrow> val \<Rightarrow> string option \<Rightarrow> string option \<Rightarrow> string \<Rightarrow> string list \<Rightarrow>
    request list \<Rightarrow> transaction list \<Rightarrow> request list \<times> (error + transaction list)" where
  "gradeLoop up internalId gc gn company [] sent allTransactions = (sent, Inr allTransactions)"
| "gradeLoop up internalId gc gn company (grade # grades) sent allTransactions =
     (let req = AssetMarketTransactions internalId company grade in
      case fetch_json up sent req of
        Inl e \<Rightarrow> (sent @ [req], Inl e)
      | Inr data \<Rightarrow>
          (case marketTransactions data company grade of
             Inl e \<Rightarrow> (sent @ [req], Inl e)
           | Inr transactions \<Rightarrow>
               (let allTransactions' = allTransactions @ transactions in
                if length allTransactions' > 0 \<and> truthy gc \<and> truthy gn
                then (sent @ [req], Inr allTransactions')
                else gradeLoop up internalId gc gn company grades (sent @ [req]) allTransactions')))"

text \<open>The outer loop over the companies.\<close>

fun companyLoop :: "upstream \<Rightarrow> val \<Rightarrow> string option \<Rightarrow> string option \<Rightarrow> string list \<Rightarrow>
    request list \<Rightarrow> transaction list \<Rightarrow> request list \<times> (error + transaction list)" where
  "companyLoop up internalId gc gn [] sent allTransactions = (sent, Inr allTransactions)"
| "companyLoop up internalId gc gn (company # companies) sent allTransactions =
     (case gradeNumbers gn company of
        None \<Rightarrow> (sent, Inl TypeError)
      | Some grades \<Rightarrow>
          (case gradeLoop up internalId gc gn company grades sent allTransactions of
             (sent', Inl e) \<Rightarrow> (sent', Inl e)
           | (sent', Inr allTransactions') \<Rightarrow>
               companyLoop up internalId gc gn companies sent' allTransactions'))"

definition getPrices :: "upstream \<Rightarrow> val \<Rightarrow> string option \<Rightarrow> string option \<Rightarrow>
    request list \<Rightarrow> request list \<times> (error + transaction list)" where
  "getPrices up internalId gc gn sent =
     companyLoop up internalId gc gn (gradingCompanies gc) sent []"

section \<open>Dates\<close>

text \<open>
  The date arithmetic of the language standard, on time values (milliseconds since
  1970-01-01T00:00:00Z) and day numbers. \<open>daysFromCivil\<close> is the day number of a date of
  the proleptic Gregorian calendar (month \<open>1\<close> to \<open>12\<close>) and \<open>civilFromDays\<close> is the
  date of a day number. Time values stay within the range of dates, so that no step
  clips one to an invalid date.
\<close>

definition msPerDay :: int where
  "msPerDay = 86400000"

definition Day :: "int \<Rightarrow> int" where
  "Day t = t div msPerDay"

definition TimeWithinDay :: "int \<Rightarrow> int" where
  "TimeWithinDay t = t mod msPerDay"

definition daysFromCivil :: "int \<Rightarrow> int \<Rightarrow> int \<Rightarrow> int" where
  "daysFromCivil y m d =
     (let y' = (if m \<le> 2 then y - 1 else y);
          era = y' div 400;
          yoe = y' - era * 400;
          doy = (153 * (if 2 < m then m - 3 else m + 9) + 2) div 5 + d - 1;
          doe = yoe * 365 + yoe div 4 - yoe div 100 + doy
      in era * 146097 + doe - 719468)"

definition civilFromDays :: "int \<Rightarrow> int \<times> int \<times> int" where
  "civilFromDays z =
     (let z' = z + 719468;
          era = z' div 146097;
          doe = z' - era * 146097;
          yoe = (doe - doe div 1460 + doe div 36524 - doe div 146096) div 365;
          doy = doe - (365 * yoe + yoe div 4 - yoe div 100);
          mp = (5 * doy + 2) div 153;
          d = doy - (153 * mp + 2) div 5 + 1;
          m = (if mp < 10 then mp + 3 else mp - 9)
      in (if m \<le> 2 then yoe + era * 400 + 1 else yoe + era * 400, m, d))"

text \<open>Months count from \<open>0\<close> in JavaScript, days of the month from \<open>1\<close>.\<close>

definition YearFromTime :: "int \<Rightarrow> int" where
  "YearFromTime t = fst (civilFromDays (Day t))"

definition MonthFromTime :: "int \<Rightarrow> int" where
  "MonthFromTime t = fst (snd (civilFromDays (Day t))) - 1"

definition DateFromTime :: "int \<Rightarrow> int" where
  "DateFromTime t = snd (snd (civilFromDays (Day t)))"

text \<open>
  \<open>MakeDay\<close> takes any month and any day of the month: a month outside \<open>0..11\<close> moves
  the year, and the day counts on from the first of the month, so that the 31st of a
  30-day month is the 1st of the next.
\<close>

definition MakeDay :: "int \<Rightarrow> int \<Rightarrow> int \<Rightarrow> int" where
  "MakeDay year month dt = daysFromCivil (year + month div 12) (month mod 12 + 1) 1 + dt - 1"

definition MakeDate :: "int \<Rightarrow> int \<Rightarrow> int" where
  "MakeDate d tm = d * msPerDay + tm"

section \<open>Confidence estimator\<close>

text \<open>
  What the estimator takes from the JavaScript library, the clock and the time zone of the
  host:
  \<^item> \<open>parseFloat\<close>: the number \<open>parseFloat(v)\<close>, a double, \<open>NaN\<close> when \<open>v\<close> does
    not parse;
  \<^item> \<open>timeValue\<close>: the time value of \<open>new Date(v)\<close>, \<open>None\<close> for an invalid date,
    whose comparisons are all false;
  \<^item> \<open>now days\<close>: the time value of \<open>new Date()\<close> when the window of that many days
    is filtered, and \<open>nowSingle\<close>: the time value of \<open>new Date()\<close> in the single-window
    form;
  \<^item> \<open>localTime\<close> and \<open>utcTime\<close>: the conversions between a time value and the local
    time of the host.
  The two conversions of values are taken not to throw on the values the upstream sends.
\<close>

record env =
  parseFloat :: "val \<Rightarrow> jsnum"
  timeValue :: "val \<Rightarrow> int option"
  now :: "nat \<Rightarrow> int"
  nowSingle :: int
  localTime :: "int \<Rightarrow> int"
  utcTime :: "int \<Rightarrow> int"

text \<open>\<open>const startDate = new Date(); startDate.setDate(startDate.getDate() - days);\<close>\<close>

definition startDate :: "env \<Rightarrow> nat \<Rightarrow> int" where
  "startDate e days =
     (let t = localTime e (now e days)
      in utcTime e (MakeDate (MakeDay (YearFromTime t) (MonthFromTime t) (DateFromTime t - int days))
                      (TimeWithinDay t)))"

text \<open>\<open>const lastMonth = new Date(); lastMonth.setMonth(lastMonth.getMonth() - 1);\<close>\<close>

definition lastMonth :: "env \<Rightarrow> int" where
  "lastMonth e =
     (let t = localTime e (nowSingle e)
      in utcTime e (MakeDate (MakeDay (YearFromTime t) (MonthFromTime t - 1) (DateFromTime t))
                      (TimeWithinDay t)))"

datatype level = High | Medium | Low

text \<open>An element of \<open>recentPrices\<close>: \<open>{price: parseFloat(transaction.price), date: transaction.date}\<close>.\<close>

record recentPrice =
  priceNumber :: jsnum
  dateField :: val

record stats =
  averagePrice :: jsnum
  averageDeviation :: jsnum
  confidenceLevel :: level

record window = stats +
  recentPrices :: "recentPrice list"

text \<open>The multi-window form.\<close>

definition filterPrices :: "env \<Rightarrow> transaction list \<Rightarrow> nat \<Rightarrow> recentPrice list" where
  "filterPrices e prices days =
     map (\<lambda>t. \<lparr>priceNumber = parseFloat e (price t), dateField = date t\<rparr>)
       (filter (\<lambda>t. case timeValue e (date t) of None \<Rightarrow> False | Some d \<Rightarrow> d \<ge> startDate e days) prices)"

text \<open>
  The literals \<open>0.1\<close> and \<open>0.2\<close> are the numbers nearest to one tenth and to two tenths;
  the length of an array is below \<open>2 ^ 32\<close> and is a number as it is.
\<close>

definition calculateAverageAndDeviation :: "recentPrice list \<Rightarrow> stats" where
  "calculateAverageAndDeviation rp =
     (if length rp = 0
      then \<lparr>averagePrice = Fin 0, averageDeviation = Fin 0, confidenceLevel = Low\<rparr>
      else
        (let avg = jdiv (foldl (\<lambda>acc t. jadd acc (priceNumber t)) (Fin 0) rp) (Fin (real (length rp)));
             dev = jdiv (foldl (\<lambda>acc t. jadd acc (jabs (jsub (priceNumber t) avg))) (Fin 0) rp)
                     (Fin (real (length rp)))
         in \<lparr>averagePrice = avg, averageDeviation = dev,
             confidenceLevel =
               (if jlt dev (jmul avg (round64 (1 / 10))) then High
                else if jlt dev (jmul avg (round64 (2 / 10))) then Medium
                else Low)\<rparr>))"

definition timespans :: "(string \<times> nat) list" where
  "timespans = [(''year'', 365), (''quarter'', 90), (''month'', 30), (''week'', 7)]"

text \<open>The result object, as the list of its entries in the order they are written.\<close>

definition calculateConfidence :: "env \<Rightarrow> transaction list \<Rightarrow> (string \<times> window) list" where
  "calculateConfidence e prices =
     map (\<lambda>(period, days).
            (let rp = filterPrices e prices days; s = calculateAverageAndDeviation rp
             in (period,
                 \<lparr>averagePrice = averagePrice s, averageDeviation = averageDeviation s,
                  confidenceLevel = confidenceLevel s, recentPrices = rp\<rparr>)))
       timespans"

text \<open>The single-window form of the earlier server: it returns the level alone.\<close>

definition recentPrices_legacy :: "env \<Rightarrow> transaction list \<Rightarrow> jsnum list" where
  "recentPrices_legacy e prices =
     map (\<lambda>t. parseFloat e (price t))
       (filter (\<lambda>t. case timeValue e (date t) of None \<Rightarrow> False | Some d \<Rightarrow> d \<le> lastMonth e) prices)"

definition calculateConfidence_legacy :: "env \<Rightarrow> transaction list \<Rightarrow> level" where
  "calculateConfidence_legacy e prices =
     (let rp = recentPrices_legacy e prices
      in if length rp = 0 then Low
         else
           (let avg = jdiv (foldl (\<lambda>acc p. jadd acc p) (Fin 0) rp) (Fin (real (length rp)));
                dev = jdiv (foldl (\<lambda>acc p. jadd acc (jabs (jsub p avg))) (Fin 0) rp)
                        (Fin (real (length rp)))
            in if jlt dev (jmul avg (round64 (1 / 10))) then High
               else if jlt dev (jmul avg (round64 (2 / 10))) then Medium
               else Low))"

section \<open>Request handler\<close>

datatype response =
    Send nat string
  | Json "transaction list" "(string \<times> window) list"

text \<open>
  The body of \<open>try\<close>, with \<open>catch\<close> as the error branches. \<open>Json\<close> is the answer
  of \<open>res.json\<close>, with status 200.
\<close>

definition tryGetPrices :: "env \<Rightarrow> upstream \<Rightarrow> string \<Rightarrow> string option \<Rightarrow> string option \<Rightarrow>
    request list \<times> response" where
  "tryGetPrices e up slab gc gn =
     (case getInternalId up slab [] of
        (sent1, Inl err) \<Rightarrow> (sent1, Send 500 ''Error fetching data'')
      | (sent1, Inr internalId) \<Rightarrow>
          (case getPrices up internalId gc gn sent1 of
             (sent2, Inl err) \<Rightarrow> (sent2, Send 500 ''Error fetching data'')
           | (sent2, Inr prices) \<Rightarrow>
               (if length prices = 0
                then
                  (case getPrices up internalId None None sent2 of
                     (sent3, Inl err) \<Rightarrow> (sent3, Send 500 ''Error fetching data'')
                   | (sent3, Inr prices') \<Rightarrow> (sent3, Json prices' (calculateConfidence e prices')))
                else (sent2, Json prices (calculateConfidence e prices)))))"

definition handler :: "env \<Rightarrow> upstream \<Rightarrow> string option \<Rightarrow> string option \<Rightarrow> string option \<Rightarrow>
    request list \<times> response" where
  "handler e up slabNumber gc gn =
     (case slabNumber of
        None \<Rightarrow> ([], Send 400 ''Please provide a slab number'')
      | Some slab \<Rightarrow>
          (if slab = [] then ([], Send 400 ''Please provide a slab number'')
           else tryGetPrices e up slab gc gn))"

section \<open>The estimator's quantities, as the specification words them\<close>

text \<open>
  The arithmetic mean of a list of prices and the mean absolute deviation from it; the
  theorems below relate what \<open>calculateAverageAndDeviation\<close> computes to them.
\<close>

definition mean :: "real list \<Rightarrow> real" where
  "mean xs = sum_list xs / real (length xs)"

definition meanAbsDev :: "real list \<Rightarrow> real" where
  "meanAbsDev xs = sum_list (map (\<lambda>x. \<bar>x - mean xs\<bar>) xs) / real (length xs)"

text \<open>The order of the levels: \<open>Low\<close> below \<open>Medium\<close> below \<open>High\<close>.\<close>

fun levelRank :: "level \<Rightarrow> nat" where
  "levelRank Low = 0"
| "levelRank Medium = 1"
| "levelRank High = 2"

section \<open>Sample upstreams and a sample clock\<close>

definition transactionsBody :: "val list \<Rightarrow> val" where
  "transactionsBody ms = Obj [(''data'', Obj [(''asset'', Obj [(''marketTransactions'', Arr ms)])])]"

definition certBody :: "val \<Rightarrow> val" where
  "certBody v =
     Obj [(''data'', Obj [(''cert'', Obj [(''asset'', Obj [(''id'', v), (''name'', Str ''Card'')])])])]"

definition sale :: "string \<Rightarrow> string \<Rightarrow> val" where
  "sale p d = Obj [(''price'', Str p), (''date'', Str d)]"

text \<open>
  The end-to-end scenario of the specification: the certificate resolves to \<open>A1\<close>, the
  pair PSA/10.0 has two sales and every other pair has none.
\<close>

fun up_scenario :: upstream where
  "up_scenario sent (Cert n) = Responded 200 (Some (certBody (Str ''A1'')))"
| "up_scenario sent (AssetMarketTransactions i c g) =
     Responded 200 (Some (transactionsBody
       (if c = ''PSA'' \<and> g = ''10.0''
        then [sale ''100.00'' ''2024-06-10'', sale ''105.00'' ''2024-06-20'']
        else [])))"

text \<open>Every pair has one sale.\<close>

fun up_every :: upstream where
  "up_every sent (Cert n) = Responded 200 (Some (certBody (Str ''A1'')))"
| "up_every sent (AssetMarketTransactions i c g) =
     Responded 200 (Some (transactionsBody [sale ''100.00'' ''2024-06-10'']))"

text \<open>No pair has a sale.\<close>

fun up_none :: upstream where
  "up_none sent (Cert n) = Responded 200 (Some (certBody (Str ''A1'')))"
| "up_none sent (AssetMarketTransactions i c g) = Responded 200 (Some (transactionsBody []))"

text \<open>The certificate service answers with status 500 and a well-formed body.\<close>

fun up_status500 :: upstream where
  "up_status500 sent (Cert n) = Responded 500 (Some (certBody (Str ''A1'')))"
| "up_status500 sent (AssetMarketTransactions i c g) = Responded 200 (Some (transactionsBody []))"

text \<open>The network is down; the body is not JSON; the certificate is unknown (\<open>cert: null\<close>).\<close>

definition up_down :: upstream where
  "up_down sent req = Rejected"

definition up_html :: upstream where
  "up_html sent req = Responded 502 None"

definition up_unknown :: upstream where
  "up_unknown sent req = Responded 200 (Some (Obj [(''data'', Obj [(''cert'', Null)])]))"

text \<open>A list of recent prices with the given numbers.\<close>

definition sampleRecent :: "real list \<Rightarrow> recentPrice list" where
  "sampleRecent xs = map (\<lambda>x. \<lparr>priceNumber = Fin x, dateField = Null\<rparr>) xs"

text \<open>
  A host in a zone without offset, whose clock reads 2024-06-30T12:00:00Z at every call,
  with the time values of the dates the samples use (\<open>new Date(null)\<close> is the epoch).
\<close>

definition env_sample :: env where
  "env_sample =
     \<lparr>parseFloat = (\<lambda>v. if v = Str ''100.00'' then Fin 100
                        else if v = Str ''105.00'' then Fin 105 else NaN),
      timeValue = map_of
        [(Str ''2024-06-20'', 1718841600000), (Str ''2024-06-10'', 1717977600000),
         (Str ''2024-05-31'', 1717113600000), (Str ''2024-05-21'', 1716249600000),
         (Null, 0)],
      now = (\<lambda>days. 1719748800000),
      nowSingle = 1719748800000,
      localTime = (\<lambda>t. t),
      utcTime = (\<lambda>t. t)\<rparr>"

section \<open>The trace of one aggregation\<close>

lemma orDefault_falsy: "\<not> truthy p \<Longrightarrow> orDefault p dflt = dflt"
  by (cases p) auto

text \<open>
  Unless both filters are given, \<open>break\<close> is never taken: an inner loop that ends
  without a throw has queried every grade of its list, in order.
\<close>

lemma gradeLoop_trace:
  "\<not> (truthy gc \<and> truthy gn) \<Longrightarrow>
   gradeLoop up iid gc gn c gs sent txs = (sent', Inr txs') \<Longrightarrow>
   sent' = sent @ map (AssetMarketTransactions iid c) gs"
proof (induction gs arbitrary: sent txs)
  case Nil
  then show ?case by simp
next
  case (Cons g gs)
  let ?req = "AssetMarketTransactions iid c g"
  from Cons.prems obtain ts where
    "gradeLoop up iid gc gn c gs (sent @ [?req]) (txs @ ts) = (sent', Inr txs')"
    by (auto simp: Let_def split: sum.splits if_splits)
  from Cons.IH[OF Cons.prems(1) this] show ?case by simp
qed

lemma companyLoop_trace:
  "\<not> (truthy gc \<and> truthy gn) \<Longrightarrow>
   companyLoop up iid gc gn cs sent txs = (sent', Inr txs') \<Longrightarrow>
   \<exists>gss. map (gradeNumbers gn) cs = map Some gss \<and>
     sent' = sent @ concat (map (\<lambda>(c, gs). map (AssetMarketTransactions iid c) gs) (zip cs gss))"
proof (induction cs arbitrary: sent txs)
  case Nil
  then show ?case by simp
next
  case (Cons c cs)
  from Cons.prems(2) obtain gs where gs: "gradeNumbers gn c = Some gs"
    by (auto split: option.splits)
  from Cons.prems(2) gs obtain s1 t1 where
    g: "gradeLoop up iid gc gn c gs sent txs = (s1, Inr t1)"
    and r: "companyLoop up iid gc gn cs s1 t1 = (sent', Inr txs')"
    by (auto split: prod.splits sum.splits)
  from gradeLoop_trace[OF Cons.prems(1) g]
  have s1: "s1 = sent @ map (AssetMarketTransactions iid c) gs" .
  from Cons.IH[OF Cons.prems(1) r] obtain gss where
    "map (gradeNumbers gn) cs = map Some gss"
    "sent' = s1 @ concat (map (\<lambda>(c, gs). map (AssetMarketTransactions iid c) gs) (zip cs gss))"
    by blast
  then show ?case using gs s1
    by (intro exI[of _ "gs # gss"]) simp
qed

text \<open>When every sub-query is answered with a well-formed body, the loops end without a throw.\<close>

lemma gradeLoop_returns:
  assumes "\<forall>s g. \<exists>st d ts. up s (AssetMarketTransactions iid c g) = Responded st (Some d)
             \<and> marketTransactions d c g = Inr ts"
  shows "\<exists>s' ts'. gradeLoop up iid gc gn c gs sent txs = (s', Inr ts')"
proof (induction gs arbitrary: sent txs)
  case Nil
  then show ?case by simp
next
  case (Cons g gs)
  from assms obtain st d ts where
    "up sent (AssetMarketTransactions iid c g) = Responded st (Some d)"
    "marketTransactions d c g = Inr ts"
    by blast
  then show ?case using Cons.IH[of "sent @ [AssetMarketTransactions iid c g]" "txs @ ts"]
    by (auto simp: fetch_json_def Let_def)
qed

lemma companyLoop_returns:
  assumes "\<forall>s c g. \<exists>st d ts. up s (AssetMarketTransactions iid c g) = Responded st (Some d)
             \<and> marketTransactions d c g = Inr ts"
    and "set cs \<subseteq> {''PSA'', ''BGS''}"
  shows "\<exists>s' ts'. companyLoop up iid gc gn cs sent txs = (s', Inr ts')"
  using assms(2)
proof (induction cs arbitrary: sent txs)
  case Nil
  then show ?case by simp
next
  case (Cons c cs)
  then obtain gs where gs: "gradeNumbers gn c = Some gs"
    by (auto simp: gradeNumbers_def)
  from assms(1) have "\<forall>s g. \<exists>st d ts. up s (AssetMarketTransactions iid c g) = Responded st (Some d)
             \<and> marketTransactions d c g = Inr ts" by blast
  from gradeLoop_returns[OF this] obtain s1 t1 where
    "gradeLoop up iid gc gn c gs sent txs = (s1, Inr t1)" by blast
  moreover from Cons have "\<exists>s' ts'. companyLoop up iid gc gn cs s1 t1 = (s', Inr ts')" by simp
  ultimately show ?case using gs by auto
qed

lemma getPrices_returns:
  assumes "\<forall>s c g. \<exists>st d ts. up s (AssetMarketTransactions iid c g) = Responded st (Some d)
             \<and> marketTransactions d c g = Inr ts"
    and "\<not> truthy gc"
  shows "\<exists>s' ts'. getPrices up iid gc gn sent = (s', Inr ts')"
  using companyLoop_returns[OF assms(1), of "[''PSA'', ''BGS'']"] assms(2)
  by (simp add: getPrices_def gradingCompanies_def orDefault_falsy)

lemma no_filter_trace:
  assumes "\<not> truthy gc" and "\<not> truthy gn"
    and "getPrices up iid gc gn sent = (sent', Inr txs)"
  shows "sent' = sent @
      [AssetMarketTransactions iid ''PSA'' ''9.0'', AssetMarketTransactions iid ''PSA'' ''10.0'',
       AssetMarketTransactions iid ''BGS'' ''9.0'', AssetMarketTransactions iid ''BGS'' ''9.5'',
       AssetMarketTransactions iid ''BGS'' ''10.0'']"
proof -
  have c: "companyLoop up iid gc gn [''PSA'', ''BGS''] sent [] = (sent', Inr txs)"
    using assms by (simp add: getPrices_def gradingCompanies_def orDefault_falsy)
  from companyLoop_trace[OF _ c] assms(1) obtain gss where
    a: "map (gradeNumbers gn) [''PSA'', ''BGS''] = map Some gss" and
    b: "sent' = sent @ concat (map (\<lambda>(c, gs). map (AssetMarketTransactions iid c) gs) (zip [''PSA'', ''BGS''] gss))"
    by blast
  from a assms(2) have "gss = [[''9.0'', ''10.0''], [''9.0'', ''9.5'', ''10.0'']]"
    by (auto simp: gradeNumbers_def orDefault_falsy)
  with b show ?thesis by simp
qed

lemma up_every_answers:
  "\<forall>s c g. \<exists>st d ts. up_every s (AssetMarketTransactions iid c g) = Responded st (Some d)
      \<and> marketTransactions d c g = Inr ts"
  by (simp add: marketTransactions_def transactionsBody_def sale_def)

section \<open>Evaluation of the samples\<close>

lemmas run_defs = getPrices_def gradingCompanies_def gradeNumbers_def fetch_json_def
  marketTransactions_def transactionsBody_def sale_def certBody_def getInternalId_def Let_def

lemmas round_defs = round64_def roundAt_def ulpExponent_def expUp.simps expDown.simps pow2_def
  roundHalfEven_def pack_def jsub_def

lemma tenth: "round64 (1 / 10) = Fin (3602879701896397 / 36028797018963968)"
  by (simp add: round_defs)

lemma fifth: "round64 (2 / 10) = Fin (3602879701896397 / 18014398509481984)"
  by (simp add: round_defs)

lemma jlt_mono: "jle a b \<Longrightarrow> jlt b t \<Longrightarrow> jlt a t"
  by (cases a; cases b; cases t) (auto simp: jle_def)

lemma env_timeValue:
  "timeValue env_sample =
     map_of [(Str ''2024-06-20'', 1718841600000), (Str ''2024-06-10'', 1717977600000),
             (Str ''2024-05-31'', 1717113600000), (Str ''2024-05-21'', 1716249600000), (Null, 0)]"
  by (simp add: env_sample_def)

lemma env_parseFloat:
  "parseFloat env_sample v =
     (if v = Str ''100.00'' then Fin 100 else if v = Str ''105.00'' then Fin 105 else NaN)"
  by (simp add: env_sample_def)

lemma nowSingle_sample: "nowSingle env_sample = 1719748800000"
  by (simp add: env_sample_def)

lemma startDate_week: "startDate env_sample 7 = 1719144000000"
  by code_simp

lemma lastMonth_sample: "lastMonth env_sample = 1717070400000"
  by code_simp

section \<open>Price aggregator: how many sub-queries\<close>

text \<open>
  C2. When neither \<open>gradingCompany\<close> nor \<open>gradeNumber\<close> is supplied (absent or empty),
  one call of \<open>getPrices\<close>, for any asset id, that ends without a throw has issued exactly
  the five sub-queries PSA/9.0, PSA/10.0, BGS/9.0, BGS/9.5, BGS/10.0, in this order, after
  whatever was sent before: there is no early exit, whatever the sub-queries return. A throw
  (a failed call, a malformed body) is the only way to issue fewer; when the upstream
  answers every sub-query with a well-formed body the call does end without a throw.
\<close>

theorem getPrices_full_matrix:
  assumes "\<not> truthy gc" and "\<not> truthy gn"
  shows "(getPrices up iid gc gn sent = (sent', Inr txs) \<longrightarrow>
            sent' = sent @
              [AssetMarketTransactions iid ''PSA'' ''9.0'', AssetMarketTransactions iid ''PSA'' ''10.0'',
               AssetMarketTransactions iid ''BGS'' ''9.0'', AssetMarketTransactions iid ''BGS'' ''9.5'',
               AssetMarketTransactions iid ''BGS'' ''10.0''])
       \<and> ((\<forall>s c g. \<exists>st d ts. up s (AssetMarketTransactions iid c g) = Responded st (Some d)
                \<and> marketTransactions d c g = Inr ts) \<longrightarrow>
            (\<exists>ts'. getPrices up iid gc gn sent =
               (sent @
                  [AssetMarketTransactions iid ''PSA'' ''9.0'', AssetMarketTransactions iid ''PSA'' ''10.0'',
                   AssetMarketTransactions iid ''BGS'' ''9.0'', AssetMarketTransactions iid ''BGS'' ''9.5'',
                   AssetMarketTransactions iid ''BGS'' ''10.0''], Inr ts')))"
proof (intro conjI impI)
  assume "getPrices up iid gc gn sent = (sent', Inr txs)"
  from no_filter_trace[OF assms this] show "sent' = sent @
      [AssetMarketTransactions iid ''PSA'' ''9.0'', AssetMarketTransactions iid ''PSA'' ''10.0'',
       AssetMarketTransactions iid ''BGS'' ''9.0'', AssetMarketTransactions iid ''BGS'' ''9.5'',
       AssetMarketTransactions iid ''BGS'' ''10.0'']" .
next
  assume "\<forall>s c g. \<exists>st d ts. up s (AssetMarketTransactions iid c g) = Responded st (Some d)
                \<and> marketTransactions d c g = Inr ts"
  from getPrices_returns[OF this assms(1)] obtain s' ts' where
    r: "getPrices up iid gc gn sent = (s', Inr ts')" by blast
  from no_filter_trace[OF assms r] r
  show "\<exists>ts'. getPrices up iid gc gn sent =
               (sent @
                  [AssetMarketTransactions iid ''PSA'' ''9.0'', AssetMarketTransactions iid ''PSA'' ''10.0'',
                   AssetMarketTransactions iid ''BGS'' ''9.0'', AssetMarketTransactions iid ''BGS'' ''9.5'',
                   AssetMarketTransactions iid ''BGS'' ''10.0''], Inr ts')" by blast
qed

theorem getPrices_full_matrix_witness:
  "\<not> truthy None
   \<and> (\<forall>s c g. \<exists>st d ts. up_every s (AssetMarketTransactions (Str ''A1'') c g) = Responded st (Some d)
         \<and> marketTransactions d c g = Inr ts)
   \<and> getPrices up_every (Str ''A1'') None None [] =
      ([AssetMarketTransactions (Str ''A1'') ''PSA'' ''9.0'',
        AssetMarketTransactions (Str ''A1'') ''PSA'' ''10.0'',
        AssetMarketTransactions (Str ''A1'') ''BGS'' ''9.0'',
        AssetMarketTransactions (Str ''A1'') ''BGS'' ''9.5'',
        AssetMarketTransactions (Str ''A1'') ''BGS'' ''10.0''],
       Inr [\<lparr>price = Str ''100.00'', date = Str ''2024-06-10'', gradingCompany = ''PSA'', gradeNumber = ''9.0''\<rparr>,
            \<lparr>price = Str ''100.00'', date = Str ''2024-06-10'', gradingCompany = ''PSA'', gradeNumber = ''10.0''\<rparr>,
            \<lparr>price = Str ''100.00'', date = Str ''2024-06-10'', gradingCompany = ''BGS'', gradeNumber = ''9.0''\<rparr>,
            \<lparr>price = Str ''100.00'', date = Str ''2024-06-10'', gradingCompany = ''BGS'', gradeNumber = ''9.5''\<rparr>,
            \<lparr>price = Str ''100.00'', date = Str ''2024-06-10'', gradingCompany = ''BGS'', gradeNumber = ''10.0''\<rparr>])"
proof -
  have t: "\<not> truthy None" by simp
  from getPrices_full_matrix[OF t t, of up_every "Str ''A1''" "[]"] up_every_answers[of "Str ''A1''"]
  obtain ts' where "getPrices up_every (Str ''A1'') None None [] =
      ([] @ [AssetMarketTransactions (Str ''A1'') ''PSA'' ''9.0'',
        AssetMarketTransactions (Str ''A1'') ''PSA'' ''10.0'',
        AssetMarketTransactions (Str ''A1'') ''BGS'' ''9.0'',
        AssetMarketTransactions (Str ''A1'') ''BGS'' ''9.5'',
        AssetMarketTransactions (Str ''A1'') ''BGS'' ''10.0''], Inr ts')"
    by blast
  then show ?thesis using up_every_answers[of "Str ''A1''"] by (simp add: run_defs)
qed

lemma grade_only_trace:
  assumes "\<not> truthy gc" and "g \<noteq> []"
    and "getPrices up iid gc (Some g) sent = (sent', Inr txs)"
  shows "sent' = sent @ [AssetMarketTransactions iid ''PSA'' g, AssetMarketTransactions iid ''BGS'' g]"
proof -
  have c: "companyLoop up iid gc (Some g) [''PSA'', ''BGS''] sent [] = (sent', Inr txs)"
    using assms by (simp add: getPrices_def gradingCompanies_def orDefault_falsy)
  from companyLoop_trace[OF _ c] assms(1) obtain gss where
    a: "map (gradeNumbers (Some g)) [''PSA'', ''BGS''] = map Some gss" and
    b: "sent' = sent @ concat (map (\<lambda>(c, gs). map (AssetMarketTransactions iid c) gs) (zip [''PSA'', ''BGS''] gss))"
    by blast
  from a assms(2) have "gss = [[g], [g]]"
    by (auto simp: gradeNumbers_def)
  with b show ?thesis by simp
qed

text \<open>
  C10. When \<open>gradeNumber\<close> is supplied and \<open>gradingCompany\<close> is not, a call of
  \<open>getPrices\<close> that ends without a throw has issued exactly two sub-queries, PSA and then
  BGS, each with the supplied grade, whether or not the first one returned transactions:
  the early exit needs both filters, and it leaves the inner loop only. With a well-formed
  upstream the call does end without a throw.
\<close>

theorem getPrices_grade_only:
  assumes "\<not> truthy gc" and "g \<noteq> []"
  shows "(getPrices up iid gc (Some g) sent = (sent', Inr txs) \<longrightarrow>
            sent' = sent @ [AssetMarketTransactions iid ''PSA'' g, AssetMarketTransactions iid ''BGS'' g])
       \<and> ((\<forall>s c g. \<exists>st d ts. up s (AssetMarketTransactions iid c g) = Responded st (Some d)
                \<and> marketTransactions d c g = Inr ts) \<longrightarrow>
            (\<exists>ts'. getPrices up iid gc (Some g) sent =
               (sent @ [AssetMarketTransactions iid ''PSA'' g, AssetMarketTransactions iid ''BGS'' g],
                Inr ts')))"
proof (intro conjI impI)
  assume "getPrices up iid gc (Some g) sent = (sent', Inr txs)"
  from grade_only_trace[OF assms this]
  show "sent' = sent @ [AssetMarketTransactions iid ''PSA'' g, AssetMarketTransactions iid ''BGS'' g]" .
next
  assume "\<forall>s c g. \<exists>st d ts. up s (AssetMarketTransactions iid c g) = Responded st (Some d)
                \<and> marketTransactions d c g = Inr ts"
  from getPrices_returns[OF this assms(1)] obtain s' ts' where
    r: "getPrices up iid gc (Some g) sent = (s', Inr ts')" by blast
  from grade_only_trace[OF assms r] r
  show "\<exists>ts'. getPrices up iid gc (Some g) sent =
               (sent @ [AssetMarketTransactions iid ''PSA'' g, AssetMarketTransactions iid ''BGS'' g],
                Inr ts')" by blast
qed

theorem getPrices_grade_only_witness:
  "\<not> truthy None \<and> ''10.0'' \<noteq> []
   \<and> (\<forall>s c g. \<exists>st d ts. up_every s (AssetMarketTransactions (Str ''A1'') c g) = Responded st (Some d)
         \<and> marketTransactions d c g = Inr ts)
   \<and> getPrices up_every (Str ''A1'') None (Some ''10.0'') [] =
      ([AssetMarketTransactions (Str ''A1'') ''PSA'' ''10.0'',
        AssetMarketTransactions (Str ''A1'') ''BGS'' ''10.0''],
       Inr [\<lparr>price = Str ''100.00'', date = Str ''2024-06-10'', gradingCompany = ''PSA'', gradeNumber = ''10.0''\<rparr>,
            \<lparr>price = Str ''100.00'', date = Str ''2024-06-10'', gradingCompany = ''BGS'', gradeNumber = ''10.0''\<rparr>])"
proof -
  have t: "\<not> truthy None" and n: "''10.0'' \<noteq> []" by simp_all
  from getPrices_grade_only[OF t n, of up_every "Str ''A1''" "[]"] up_every_answers[of "Str ''A1''"]
  obtain ts' where "getPrices up_every (Str ''A1'') None (Some ''10.0'') [] =
      ([] @ [AssetMarketTransactions (Str ''A1'') ''PSA'' ''10.0'',
        AssetMarketTransactions (Str ''A1'') ''BGS'' ''10.0''], Inr ts')"
    by blast
  then show ?thesis using up_every_answers[of "Str ''A1''"] by (simp add: run_defs)
qed

text \<open>
  C8. With \<open>gradingCompany = "PSA"\<close> and \<open>gradeNumber = "10.0"\<close>, when the upstream
  answers that pair with a non-empty list of transactions, \<open>getPrices\<close> issues exactly
  one sub-query, the one for PSA/10.0, and returns the transactions of that answer: no
  other pair is queried.
\<close>

theorem getPrices_single_pair:
  assumes "up sent (AssetMarketTransactions iid ''PSA'' ''10.0'') = Responded status (Some data)"
    and "marketTransactions data ''PSA'' ''10.0'' = Inr ts"
    and "ts \<noteq> []"
  shows "getPrices up iid (Some ''PSA'') (Some ''10.0'') sent =
           (sent @ [AssetMarketTransactions iid ''PSA'' ''10.0''], Inr ts)"
  using assms by (simp add: getPrices_def gradingCompanies_def gradeNumbers_def fetch_json_def)

theorem getPrices_single_pair_witness:
  "up_scenario [Cert ''12345678''] (AssetMarketTransactions (Str ''A1'') ''PSA'' ''10.0'') =
     Responded 200 (Some (transactionsBody [sale ''100.00'' ''2024-06-10'', sale ''105.00'' ''2024-06-20'']))
   \<and> marketTransactions
        (transactionsBody [sale ''100.00'' ''2024-06-10'', sale ''105.00'' ''2024-06-20'']) ''PSA'' ''10.0'' =
      Inr [\<lparr>price = Str ''100.00'', date = Str ''2024-06-10'', gradingCompany = ''PSA'', gradeNumber = ''10.0''\<rparr>,
           \<lparr>price = Str ''105.00'', date = Str ''2024-06-20'', gradingCompany = ''PSA'', gradeNumber = ''10.0''\<rparr>]
   \<and> getPrices up_scenario (Str ''A1'') (Some ''PSA'') (Some ''10.0'') [Cert ''12345678''] =
      ([Cert ''12345678'', AssetMarketTransactions (Str ''A1'') ''PSA'' ''10.0''],
       Inr [\<lparr>price = Str ''100.00'', date = Str ''2024-06-10'', gradingCompany = ''PSA'', gradeNumber = ''10.0''\<rparr>,
            \<lparr>price = Str ''105.00'', date = Str ''2024-06-20'', gradingCompany = ''PSA'', gradeNumber = ''10.0''\<rparr>])"
proof -
  have a: "up_scenario [Cert ''12345678''] (AssetMarketTransactions (Str ''A1'') ''PSA'' ''10.0'') =
     Responded 200 (Some (transactionsBody [sale ''100.00'' ''2024-06-10'', sale ''105.00'' ''2024-06-20'']))"
    by simp
  have b: "marketTransactions
        (transactionsBody [sale ''100.00'' ''2024-06-10'', sale ''105.00'' ''2024-06-20'']) ''PSA'' ''10.0'' =
      Inr [\<lparr>price = Str ''100.00'', date = Str ''2024-06-10'', gradingCompany = ''PSA'', gradeNumber = ''10.0''\<rparr>,
           \<lparr>price = Str ''105.00'', date = Str ''2024-06-20'', gradingCompany = ''PSA'', gradeNumber = ''10.0''\<rparr>]"
    by (simp add: marketTransactions_def transactionsBody_def sale_def)
  from getPrices_single_pair[where up = up_scenario and sent = "[Cert ''12345678'']", OF a b] a b
  show ?thesis by simp
qed

section \<open>Request handler: the fallback\<close>

lemma getInternalId_fst: "fst (getInternalId up slab sent) = sent @ [Cert slab]"
  by (simp add: getInternalId_def Let_def)

text \<open>
  C1. When the handler's first call of \<open>getPrices\<close>, made with an explicit
  \<open>gradingCompany\<close> or \<open>gradeNumber\<close>, returns no transaction, the handler calls
  \<open>getPrices\<close> again with no filter (the full grade matrix), and the answer carries the
  prices of that second call and the confidence computed over them (or is the 500 answer
  when the second call throws).
\<close>

theorem handler_fallback_after_empty_filtered:
  assumes "slab \<noteq> []" and "truthy gc \<or> truthy gn"
    and "getInternalId up slab [] = (sent1, Inr iid)"
    and "getPrices up iid gc gn sent1 = (sent2, Inr [])"
  shows "handler e up (Some slab) gc gn =
           (case getPrices up iid None None sent2 of
              (sent3, Inl err) \<Rightarrow> (sent3, Send 500 ''Error fetching data'')
            | (sent3, Inr prices) \<Rightarrow> (sent3, Json prices (calculateConfidence e prices)))"
  using assms by (simp add: handler_def tryGetPrices_def)

theorem handler_fallback_after_empty_filtered_witness:
  "''12345678'' \<noteq> [] \<and> (truthy (Some ''BGS'') \<or> truthy (Some ''9.5''))
   \<and> getInternalId up_scenario ''12345678'' [] = ([Cert ''12345678''], Inr (Str ''A1''))
   \<and> getPrices up_scenario (Str ''A1'') (Some ''BGS'') (Some ''9.5'') [Cert ''12345678''] =
       ([Cert ''12345678'', AssetMarketTransactions (Str ''A1'') ''BGS'' ''9.5''], Inr [])
   \<and> handler env_sample up_scenario (Some ''12345678'') (Some ''BGS'') (Some ''9.5'') =
       ([Cert ''12345678'', AssetMarketTransactions (Str ''A1'') ''BGS'' ''9.5'',
         AssetMarketTransactions (Str ''A1'') ''PSA'' ''9.0'',
         AssetMarketTransactions (Str ''A1'') ''PSA'' ''10.0'',
         AssetMarketTransactions (Str ''A1'') ''BGS'' ''9.0'',
         AssetMarketTransactions (Str ''A1'') ''BGS'' ''9.5'',
         AssetMarketTransactions (Str ''A1'') ''BGS'' ''10.0''],
        Json
          [\<lparr>price = Str ''100.00'', date = Str ''2024-06-10'', gradingCompany = ''PSA'', gradeNumber = ''10.0''\<rparr>,
           \<lparr>price = Str ''105.00'', date = Str ''2024-06-20'', gradingCompany = ''PSA'', gradeNumber = ''10.0''\<rparr>]
          (calculateConfidence env_sample
             [\<lparr>price = Str ''100.00'', date = Str ''2024-06-10'', gradingCompany = ''PSA'', gradeNumber = ''10.0''\<rparr>,
              \<lparr>price = Str ''105.00'', date = Str ''2024-06-20'', gradingCompany = ''PSA'', gradeNumber = ''10.0''\<rparr>]))"
proof -
  have n: "''12345678'' \<noteq> []" and f: "truthy (Some ''BGS'') \<or> truthy (Some ''9.5'')" by simp_all
  have r: "getInternalId up_scenario ''12345678'' [] = ([Cert ''12345678''], Inr (Str ''A1''))"
    by (simp add: run_defs)
  have p: "getPrices up_scenario (Str ''A1'') (Some ''BGS'') (Some ''9.5'') [Cert ''12345678''] =
       ([Cert ''12345678'', AssetMarketTransactions (Str ''A1'') ''BGS'' ''9.5''], Inr [])"
    by (simp add: run_defs)
  have u: "getPrices up_scenario (Str ''A1'') None None
             [Cert ''12345678'', AssetMarketTransactions (Str ''A1'') ''BGS'' ''9.5''] =
       ([Cert ''12345678'', AssetMarketTransactions (Str ''A1'') ''BGS'' ''9.5'',
         AssetMarketTransactions (Str ''A1'') ''PSA'' ''9.0'',
         AssetMarketTransactions (Str ''A1'') ''PSA'' ''10.0'',
         AssetMarketTransactions (Str ''A1'') ''BGS'' ''9.0'',
         AssetMarketTransactions (Str ''A1'') ''BGS'' ''9.5'',
         AssetMarketTransactions (Str ''A1'') ''BGS'' ''10.0''],
        Inr [\<lparr>price = Str ''100.00'', date = Str ''2024-06-10'', gradingCompany = ''PSA'', gradeNumber = ''10.0''\<rparr>,
           \<lparr>price = Str ''105.00'', date = Str ''2024-06-20'', gradingCompany = ''PSA'', gradeNumber = ''10.0''\<rparr>])"
    by (simp add: run_defs)
  from handler_fallback_after_empty_filtered[OF n f r p, of env_sample] n f r p u
  show ?thesis by simp
qed

text \<open>
  C9. The fallback is triggered by emptiness alone: whatever the filters, supplied or not,
  when the first call of \<open>getPrices\<close> returns no transaction the handler goes on to a
  second call without filters, whose outcome is the answer. For a
  request without filters whose second call also ends without a throw, the handler has then
  sent the certificate query and ten price sub-queries: the five pairs of the matrix, twice.
\<close>

theorem handler_fallback_by_emptiness:
  assumes "slab \<noteq> []"
    and "getInternalId up slab [] = (sent1, Inr iid)"
    and "getPrices up iid gc gn sent1 = (sent2, Inr [])"
  shows "handler e up (Some slab) gc gn =
           (case getPrices up iid None None sent2 of
              (sent3, Inl err) \<Rightarrow> (sent3, Send 500 ''Error fetching data'')
            | (sent3, Inr prices) \<Rightarrow> (sent3, Json prices (calculateConfidence e prices)))
       \<and> (\<not> truthy gc \<longrightarrow> \<not> truthy gn \<longrightarrow>
            getPrices up iid None None sent2 = (sent3, Inr prices) \<longrightarrow>
            fst (handler e up (Some slab) gc gn) =
              [Cert slab,
               AssetMarketTransactions iid ''PSA'' ''9.0'', AssetMarketTransactions iid ''PSA'' ''10.0'',
               AssetMarketTransactions iid ''BGS'' ''9.0'', AssetMarketTransactions iid ''BGS'' ''9.5'',
               AssetMarketTransactions iid ''BGS'' ''10.0'',
               AssetMarketTransactions iid ''PSA'' ''9.0'', AssetMarketTransactions iid ''PSA'' ''10.0'',
               AssetMarketTransactions iid ''BGS'' ''9.0'', AssetMarketTransactions iid ''BGS'' ''9.5'',
               AssetMarketTransactions iid ''BGS'' ''10.0''])"
proof (intro conjI impI)
  show a: "handler e up (Some slab) gc gn =
           (case getPrices up iid None None sent2 of
              (sent3, Inl err) \<Rightarrow> (sent3, Send 500 ''Error fetching data'')
            | (sent3, Inr prices) \<Rightarrow> (sent3, Json prices (calculateConfidence e prices)))"
    using assms by (simp add: handler_def tryGetPrices_def)
  assume gc: "\<not> truthy gc" and gn: "\<not> truthy gn"
    and second: "getPrices up iid None None sent2 = (sent3, Inr prices)"
  have s1: "sent1 = [Cert slab]"
    using getInternalId_fst[of up slab "[]"] assms(2) by simp
  have n: "\<not> truthy None" by simp
  from no_filter_trace[OF gc gn assms(3)] no_filter_trace[OF n n second] s1 a second
  show "fst (handler e up (Some slab) gc gn) =
              [Cert slab,
               AssetMarketTransactions iid ''PSA'' ''9.0'', AssetMarketTransactions iid ''PSA'' ''10.0'',
               AssetMarketTransactions iid ''BGS'' ''9.0'', AssetMarketTransactions iid ''BGS'' ''9.5'',
               AssetMarketTransactions iid ''BGS'' ''10.0'',
               AssetMarketTransactions iid ''PSA'' ''9.0'', AssetMarketTransactions iid ''PSA'' ''10.0'',
               AssetMarketTransactions iid ''BGS'' ''9.0'', AssetMarketTransactions iid ''BGS'' ''9.5'',
               AssetMarketTransactions iid ''BGS'' ''10.0'']"
    by simp
qed

theorem handler_fallback_by_emptiness_witness:
  "''12345678'' \<noteq> []
   \<and> getInternalId up_none ''12345678'' [] = ([Cert ''12345678''], Inr (Str ''A1''))
   \<and> getPrices up_none (Str ''A1'') None None [Cert ''12345678''] =
       ([Cert ''12345678'',
         AssetMarketTransactions (Str ''A1'') ''PSA'' ''9.0'',
         AssetMarketTransactions (Str ''A1'') ''PSA'' ''10.0'',
         AssetMarketTransactions (Str ''A1'') ''BGS'' ''9.0'',
         AssetMarketTransactions (Str ''A1'') ''BGS'' ''9.5'',
         AssetMarketTransactions (Str ''A1'') ''BGS'' ''10.0''], Inr [])
   \<and> \<not> truthy None
   \<and> fst (handler env_sample up_none (Some ''12345678'') None None) =
       [Cert ''12345678'',
        AssetMarketTransactions (Str ''A1'') ''PSA'' ''9.0'',
        AssetMarketTransactions (Str ''A1'') ''PSA'' ''10.0'',
        AssetMarketTransactions (Str ''A1'') ''BGS'' ''9.0'',
        AssetMarketTransactions (Str ''A1'') ''BGS'' ''9.5'',
        AssetMarketTransactions (Str ''A1'') ''BGS'' ''10.0'',
        AssetMarketTransactions (Str ''A1'') ''PSA'' ''9.0'',
        AssetMarketTransactions (Str ''A1'') ''PSA'' ''10.0'',
        AssetMarketTransactions (Str ''A1'') ''BGS'' ''9.0'',
        AssetMarketTransactions (Str ''A1'') ''BGS'' ''9.5'',
        AssetMarketTransactions (Str ''A1'') ''BGS'' ''10.0'']
   \<and> length (filter (\<lambda>r. r \<noteq> Cert ''12345678'')
         (fst (handler env_sample up_none (Some ''12345678'') None None))) = 10"
proof -
  have n: "''12345678'' \<noteq> []" and t: "\<not> truthy None" by simp_all
  have r: "getInternalId up_none ''12345678'' [] = ([Cert ''12345678''], Inr (Str ''A1''))"
    by (simp add: run_defs)
  have p: "getPrices up_none (Str ''A1'') None None [Cert ''12345678''] =
       ([Cert ''12345678'',
         AssetMarketTransactions (Str ''A1'') ''PSA'' ''9.0'',
         AssetMarketTransactions (Str ''A1'') ''PSA'' ''10.0'',
         AssetMarketTransactions (Str ''A1'') ''BGS'' ''9.0'',
         AssetMarketTransactions (Str ''A1'') ''BGS'' ''9.5'',
         AssetMarketTransactions (Str ''A1'') ''BGS'' ''10.0''], Inr [])"
    by (simp add: run_defs)
  obtain s3 r3 where u: "getPrices up_none (Str ''A1'') None None
       [Cert ''12345678'',
         AssetMarketTransactions (Str ''A1'') ''PSA'' ''9.0'',
         AssetMarketTransactions (Str ''A1'') ''PSA'' ''10.0'',
         AssetMarketTransactions (Str ''A1'') ''BGS'' ''9.0'',
         AssetMarketTransactions (Str ''A1'') ''BGS'' ''9.5'',
         AssetMarketTransactions (Str ''A1'') ''BGS'' ''10.0''] = (s3, r3)"
    by (rule prod.exhaust)
  then have r3: "r3 = Inr []" by (simp add: run_defs)
  from u r3 have u': "getPrices up_none (Str ''A1'') None None
       [Cert ''12345678'',
         AssetMarketTransactions (Str ''A1'') ''PSA'' ''9.0'',
         AssetMarketTransactions (Str ''A1'') ''PSA'' ''10.0'',
         AssetMarketTransactions (Str ''A1'') ''BGS'' ''9.0'',
         AssetMarketTransactions (Str ''A1'') ''BGS'' ''9.5'',
         AssetMarketTransactions (Str ''A1'') ''BGS'' ''10.0''] = (s3, Inr [])"
    by simp
  from handler_fallback_by_emptiness[OF n r p, of env_sample s3 "[]", THEN conjunct2, rule_format, OF t t u']
  have "fst (handler env_sample up_none (Some ''12345678'') None None) =
       [Cert ''12345678'',
        AssetMarketTransactions (Str ''A1'') ''PSA'' ''9.0'',
        AssetMarketTransactions (Str ''A1'') ''PSA'' ''10.0'',
        AssetMarketTransactions (Str ''A1'') ''BGS'' ''9.0'',
        AssetMarketTransactions (Str ''A1'') ''BGS'' ''9.5'',
        AssetMarketTransactions (Str ''A1'') ''BGS'' ''10.0'',
        AssetMarketTransactions (Str ''A1'') ''PSA'' ''9.0'',
        AssetMarketTransactions (Str ''A1'') ''PSA'' ''10.0'',
        AssetMarketTransactions (Str ''A1'') ''BGS'' ''9.0'',
        AssetMarketTransactions (Str ''A1'') ''BGS'' ''9.5'',
        AssetMarketTransactions (Str ''A1'') ''BGS'' ''10.0'']"
    by simp
  with n r p t show ?thesis by simp
qed

section \<open>Confidence estimator: the windows\<close>

text \<open>
  C5. For every list of transactions, each of the four windows (year, quarter, month, week)
  whose filtered set is empty has \<open>averagePrice = 0\<close>, \<open>averageDeviation = 0\<close> and
  \<open>confidenceLevel = Low\<close> in the result of the multi-window estimator.
\<close>

theorem calculateConfidence_empty_window:
  assumes "(period, days) \<in> set timespans" and "filterPrices e prices days = []"
  shows "map_of (calculateConfidence e prices) period =
           Some \<lparr>averagePrice = Fin 0, averageDeviation = Fin 0, confidenceLevel = Low, recentPrices = []\<rparr>"
  using assms
  by (auto simp: calculateConfidence_def timespans_def calculateAverageAndDeviation_def Let_def)

theorem calculateConfidence_empty_window_witness:
  "(''week'', 7) \<in> set timespans
   \<and> filterPrices env_sample
       [\<lparr>price = Str ''100.00'', date = Str ''2024-06-10'', gradingCompany = ''PSA'', gradeNumber = ''10.0''\<rparr>,
        \<lparr>price = Str ''105.00'', date = Str ''2024-06-20'', gradingCompany = ''PSA'', gradeNumber = ''10.0''\<rparr>] 7 = []
   \<and> map_of (calculateConfidence env_sample
       [\<lparr>price = Str ''100.00'', date = Str ''2024-06-10'', gradingCompany = ''PSA'', gradeNumber = ''10.0''\<rparr>,
        \<lparr>price = Str ''105.00'', date = Str ''2024-06-20'', gradingCompany = ''PSA'', gradeNumber = ''10.0''\<rparr>]) ''week'' =
      Some \<lparr>averagePrice = Fin 0, averageDeviation = Fin 0, confidenceLevel = Low, recentPrices = []\<rparr>"
proof -
  have w: "(''week'', 7) \<in> set timespans" by (simp add: timespans_def)
  have f: "filterPrices env_sample
       [\<lparr>price = Str ''100.00'', date = Str ''2024-06-10'', gradingCompany = ''PSA'', gradeNumber = ''10.0''\<rparr>,
        \<lparr>price = Str ''105.00'', date = Str ''2024-06-20'', gradingCompany = ''PSA'', gradeNumber = ''10.0''\<rparr>] 7 = []"
    by (simp add: filterPrices_def env_timeValue startDate_week)
  from calculateConfidence_empty_window[OF w f] w f show ?thesis by simp
qed

section \<open>Confidence estimator: mean, deviation and level\<close>

text \<open>
  The record \<open>calculateAverageAndDeviation\<close> returns for a non-empty list, from the
  values of its five steps.
\<close>

lemma stats_unfold:
  assumes "rp \<noteq> []"
    and "foldl (\<lambda>acc t. jadd acc (priceNumber t)) (Fin 0) rp = s"
    and "jdiv s (Fin (real (length rp))) = avg"
    and "foldl (\<lambda>acc t. jadd acc (jabs (jsub (priceNumber t) avg))) (Fin 0) rp = ds"
    and "jdiv ds (Fin (real (length rp))) = dev"
    and "jmul avg (round64 (1 / 10)) = t1"
    and "jmul avg (round64 (2 / 10)) = t2"
  shows "calculateAverageAndDeviation rp =
     \<lparr>averagePrice = avg, averageDeviation = dev,
      confidenceLevel = (if jlt dev t1 then High else if jlt dev t2 then Medium else Low)\<rparr>"
  using assms by (auto simp: calculateAverageAndDeviation_def Let_def)

lemma level_of_stats:
  assumes "rp \<noteq> []"
  shows "confidenceLevel (calculateAverageAndDeviation rp) =
     (if jlt (averageDeviation (calculateAverageAndDeviation rp))
           (jmul (averagePrice (calculateAverageAndDeviation rp)) (round64 (1 / 10))) then High
      else if jlt (averageDeviation (calculateAverageAndDeviation rp))
           (jmul (averagePrice (calculateAverageAndDeviation rp)) (round64 (2 / 10))) then Medium
      else Low)"
  using assms by (simp add: calculateAverageAndDeviation_def Let_def)

lemma legacy_as_stats:
  assumes "rp \<noteq> []" and "recentPrices_legacy e prices = map priceNumber rp"
  shows "calculateConfidence_legacy e prices = confidenceLevel (calculateAverageAndDeviation rp)"
  using assms
  by (simp add: calculateConfidence_legacy_def calculateAverageAndDeviation_def Let_def foldl_map)

text \<open>The sample lists, step by step.\<close>

lemma stats_4_to_8:
  "calculateAverageAndDeviation (sampleRecent [4, 5, 6, 7, 8]) =
     \<lparr>averagePrice = Fin 6, averageDeviation = Fin (5404319552844595 / 4503599627370496),
      confidenceLevel = Medium\<rparr>"
proof -
  let ?rp = "sampleRecent [4, 5, 6, 7, 8]"
  have n: "?rp \<noteq> []"
    by (simp add: sampleRecent_def)
  have s: "foldl (\<lambda>acc t. jadd acc (priceNumber t)) (Fin 0) ?rp = Fin 30"
    by (simp add: sampleRecent_def round_defs)
  have a: "jdiv (Fin 30) (Fin (real (length ?rp))) = Fin 6"
    by (simp add: sampleRecent_def round_defs)
  have ds: "foldl (\<lambda>acc t. jadd acc (jabs (jsub (priceNumber t) (Fin 6)))) (Fin 0) ?rp = Fin 6"
    by (simp add: sampleRecent_def round_defs)
  have d: "jdiv (Fin 6) (Fin (real (length ?rp))) = Fin (5404319552844595 / 4503599627370496)"
    by (simp add: sampleRecent_def round_defs)
  have t1: "jmul (Fin 6) (round64 (1 / 10)) = Fin (1351079888211149 / 2251799813685248)"
    by (simp add: tenth round_defs)
  have t2: "jmul (Fin 6) (round64 (2 / 10)) = Fin (1351079888211149 / 1125899906842624)"
    by (simp add: fifth round_defs)
  show ?thesis
    unfolding stats_unfold[OF n s a ds d t1 t2] by simp
qed

lemma stats_5_of_2_and_3:
  "calculateAverageAndDeviation (sampleRecent [2, 2, 2, 3, 3]) =
     \<lparr>averagePrice = Fin (5404319552844595 / 2251799813685248),
      averageDeviation = Fin (1080863910568919 / 2251799813685248),
      confidenceLevel = Low\<rparr>"
proof -
  let ?rp = "sampleRecent [2, 2, 2, 3, 3]"
  have n: "?rp \<noteq> []"
    by (simp add: sampleRecent_def)
  have s: "foldl (\<lambda>acc t. jadd acc (priceNumber t)) (Fin 0) ?rp = Fin 12"
    by (simp add: sampleRecent_def round_defs)
  have a: "jdiv (Fin 12) (Fin (real (length ?rp))) = Fin (5404319552844595 / 2251799813685248)"
    by (simp add: sampleRecent_def round_defs)
  have ds: "foldl (\<lambda>acc t. jadd acc (jabs (jsub (priceNumber t) (Fin (5404319552844595 / 2251799813685248)))))
              (Fin 0) ?rp = Fin (5404319552844595 / 2251799813685248)"
    by (simp add: sampleRecent_def round_defs)
  have d: "jdiv (Fin (5404319552844595 / 2251799813685248)) (Fin (real (length ?rp))) =
             Fin (1080863910568919 / 2251799813685248)"
    by (simp add: sampleRecent_def round_defs)
  have t1: "jmul (Fin (5404319552844595 / 2251799813685248)) (round64 (1 / 10)) =
              Fin (1080863910568919 / 4503599627370496)"
    by (simp add: tenth round_defs)
  have t2: "jmul (Fin (5404319552844595 / 2251799813685248)) (round64 (2 / 10)) =
              Fin (1080863910568919 / 2251799813685248)"
    by (simp add: fifth round_defs)
  show ?thesis
    unfolding stats_unfold[OF n s a ds d t1 t2] by simp
qed

lemma stats_10_of_2_and_3:
  "calculateAverageAndDeviation (sampleRecent [2, 2, 2, 2, 2, 2, 3, 3, 3, 3]) =
     \<lparr>averagePrice = Fin (5404319552844595 / 2251799813685248),
      averageDeviation = Fin (4323455642275675 / 9007199254740992),
      confidenceLevel = Medium\<rparr>"
proof -
  let ?rp = "sampleRecent [2, 2, 2, 2, 2, 2, 3, 3, 3, 3]"
  have n: "?rp \<noteq> []"
    by (simp add: sampleRecent_def)
  have s: "foldl (\<lambda>acc t. jadd acc (priceNumber t)) (Fin 0) ?rp = Fin 24"
    by (simp add: sampleRecent_def round_defs)
  have a: "jdiv (Fin 24) (Fin (real (length ?rp))) = Fin (5404319552844595 / 2251799813685248)"
    by (simp add: sampleRecent_def round_defs)
  have ds: "foldl (\<lambda>acc t. jadd acc (jabs (jsub (priceNumber t) (Fin (5404319552844595 / 2251799813685248)))))
              (Fin 0) ?rp = Fin (2702159776422297 / 562949953421312)"
    by (simp add: sampleRecent_def round_defs)
  have d: "jdiv (Fin (2702159776422297 / 562949953421312)) (Fin (real (length ?rp))) =
             Fin (4323455642275675 / 9007199254740992)"
    by (simp add: sampleRecent_def round_defs)
  have t1: "jmul (Fin (5404319552844595 / 2251799813685248)) (round64 (1 / 10)) =
              Fin (1080863910568919 / 4503599627370496)"
    by (simp add: tenth round_defs)
  have t2: "jmul (Fin (5404319552844595 / 2251799813685248)) (round64 (2 / 10)) =
              Fin (1080863910568919 / 2251799813685248)"
    by (simp add: fifth round_defs)
  show ?thesis
    unfolding stats_unfold[OF n s a ds d t1 t2] by simp
qed

lemma stats_100_105:
  "calculateAverageAndDeviation (sampleRecent [100, 105]) =
     \<lparr>averagePrice = Fin (205 / 2), averageDeviation = Fin (5 / 2), confidenceLevel = High\<rparr>"
proof -
  let ?rp = "sampleRecent [100, 105]"
  have n: "?rp \<noteq> []"
    by (simp add: sampleRecent_def)
  have s: "foldl (\<lambda>acc t. jadd acc (priceNumber t)) (Fin 0) ?rp = Fin 205"
    by (simp add: sampleRecent_def round_defs)
  have a: "jdiv (Fin 205) (Fin (real (length ?rp))) = Fin (205 / 2)"
    by (simp add: sampleRecent_def round_defs)
  have ds: "foldl (\<lambda>acc t. jadd acc (jabs (jsub (priceNumber t) (Fin (205 / 2))))) (Fin 0) ?rp = Fin 5"
    by (simp add: sampleRecent_def round_defs)
  have d: "jdiv (Fin 5) (Fin (real (length ?rp))) = Fin (5 / 2)"
    by (simp add: sampleRecent_def round_defs)
  have t1: "jmul (Fin (205 / 2)) (round64 (1 / 10)) = Fin (41 / 4)"
    by (simp add: tenth round_defs)
  have t2: "jmul (Fin (205 / 2)) (round64 (2 / 10)) = Fin (41 / 2)"
    by (simp add: fifth round_defs)
  show ?thesis
    unfolding stats_unfold[OF n s a ds d t1 t2] by simp
qed

lemma stats_100_100:
  "calculateAverageAndDeviation (sampleRecent [100, 100]) =
     \<lparr>averagePrice = Fin 100, averageDeviation = Fin 0, confidenceLevel = High\<rparr>"
proof -
  let ?rp = "sampleRecent [100, 100]"
  have n: "?rp \<noteq> []"
    by (simp add: sampleRecent_def)
  have s: "foldl (\<lambda>acc t. jadd acc (priceNumber t)) (Fin 0) ?rp = Fin 200"
    by (simp add: sampleRecent_def round_defs)
  have a: "jdiv (Fin 200) (Fin (real (length ?rp))) = Fin 100"
    by (simp add: sampleRecent_def round_defs)
  have ds: "foldl (\<lambda>acc t. jadd acc (jabs (jsub (priceNumber t) (Fin 100)))) (Fin 0) ?rp = Fin 0"
    by (simp add: sampleRecent_def round_defs)
  have d: "jdiv (Fin 0) (Fin (real (length ?rp))) = Fin 0"
    by (simp add: sampleRecent_def round_defs)
  have t1: "jmul (Fin 100) (round64 (1 / 10)) = Fin 10"
    by (simp add: tenth round_defs)
  have t2: "jmul (Fin 100) (round64 (2 / 10)) = Fin 20"
    by (simp add: fifth round_defs)
  show ?thesis
    unfolding stats_unfold[OF n s a ds d t1 t2] by simp
qed

lemma stats_50_150:
  "calculateAverageAndDeviation (sampleRecent [50, 150]) =
     \<lparr>averagePrice = Fin 100, averageDeviation = Fin 50, confidenceLevel = Low\<rparr>"
proof -
  let ?rp = "sampleRecent [50, 150]"
  have n: "?rp \<noteq> []"
    by (simp add: sampleRecent_def)
  have s: "foldl (\<lambda>acc t. jadd acc (priceNumber t)) (Fin 0) ?rp = Fin 200"
    by (simp add: sampleRecent_def round_defs)
  have a: "jdiv (Fin 200) (Fin (real (length ?rp))) = Fin 100"
    by (simp add: sampleRecent_def round_defs)
  have ds: "foldl (\<lambda>acc t. jadd acc (jabs (jsub (priceNumber t) (Fin 100)))) (Fin 0) ?rp = Fin 100"
    by (simp add: sampleRecent_def round_defs)
  have d: "jdiv (Fin 100) (Fin (real (length ?rp))) = Fin 50"
    by (simp add: sampleRecent_def round_defs)
  have t1: "jmul (Fin 100) (round64 (1 / 10)) = Fin 10"
    by (simp add: tenth round_defs)
  have t2: "jmul (Fin 100) (round64 (2 / 10)) = Fin 20"
    by (simp add: fifth round_defs)
  show ?thesis
    unfolding stats_unfold[OF n s a ds d t1 t2] by simp
qed

text \<open>
  C6, as the code has it. For every non-empty filtered set, \<open>averagePrice\<close> is the sum of
  the prices, added from left to right, divided by their number, and
  \<open>averageDeviation\<close> is the sum of the absolute differences from \<open>averagePrice\<close>
  divided by their number, every operation rounded to a double; \<open>confidenceLevel\<close> is
  High if \<open>averageDeviation < averagePrice * 0.1\<close>, else Medium if
  \<open>averageDeviation < averagePrice * 0.2\<close>, else Low, the two products being the rounded
  products by the doubles nearest to 0.1 and 0.2. The single-window form gives the level
  the multi-window form gives for the same numbers.
\<close>

theorem classification_in_double_arithmetic:
  assumes "rp \<noteq> []"
  shows "averagePrice (calculateAverageAndDeviation rp) =
           jdiv (foldl (\<lambda>acc t. jadd acc (priceNumber t)) (Fin 0) rp) (Fin (real (length rp)))
       \<and> averageDeviation (calculateAverageAndDeviation rp) =
           jdiv (foldl (\<lambda>acc t. jadd acc
                    (jabs (jsub (priceNumber t) (averagePrice (calculateAverageAndDeviation rp)))))
                  (Fin 0) rp)
             (Fin (real (length rp)))
       \<and> confidenceLevel (calculateAverageAndDeviation rp) =
           (if jlt (averageDeviation (calculateAverageAndDeviation rp))
                 (jmul (averagePrice (calculateAverageAndDeviation rp)) (round64 (1 / 10))) then High
            else if jlt (averageDeviation (calculateAverageAndDeviation rp))
                 (jmul (averagePrice (calculateAverageAndDeviation rp)) (round64 (2 / 10))) then Medium
            else Low)
       \<and> (recentPrices_legacy e prices = map priceNumber rp \<longrightarrow>
            calculateConfidence_legacy e prices = confidenceLevel (calculateAverageAndDeviation rp))"
  using assms legacy_as_stats[OF assms, of e prices]
  by (simp add: calculateAverageAndDeviation_def Let_def)

theorem classification_in_double_arithmetic_witness:
  "sampleRecent [100, 105] \<noteq> []
   \<and> recentPrices_legacy env_sample
        [\<lparr>price = Str ''100.00'', date = Str ''2024-05-21'', gradingCompany = ''PSA'', gradeNumber = ''10.0''\<rparr>,
         \<lparr>price = Str ''105.00'', date = Str ''2024-05-21'', gradingCompany = ''PSA'', gradeNumber = ''10.0''\<rparr>] =
       map priceNumber (sampleRecent [100, 105])
   \<and> calculateAverageAndDeviation (sampleRecent [100, 105]) =
       \<lparr>averagePrice = Fin (205 / 2), averageDeviation = Fin (5 / 2), confidenceLevel = High\<rparr>
   \<and> jlt (Fin (5 / 2)) (jmul (Fin (205 / 2)) (round64 (1 / 10)))
   \<and> calculateConfidence_legacy env_sample
        [\<lparr>price = Str ''100.00'', date = Str ''2024-05-21'', gradingCompany = ''PSA'', gradeNumber = ''10.0''\<rparr>,
         \<lparr>price = Str ''105.00'', date = Str ''2024-05-21'', gradingCompany = ''PSA'', gradeNumber = ''10.0''\<rparr>] = High"
proof -
  let ?ps = "[\<lparr>price = Str ''100.00'', date = Str ''2024-05-21'', gradingCompany = ''PSA'', gradeNumber = ''10.0''\<rparr>,
         \<lparr>price = Str ''105.00'', date = Str ''2024-05-21'', gradingCompany = ''PSA'', gradeNumber = ''10.0''\<rparr>]"
  have n: "sampleRecent [100, 105] \<noteq> []"
    by (simp add: sampleRecent_def)
  have l: "recentPrices_legacy env_sample ?ps = map priceNumber (sampleRecent [100, 105])"
    by (simp add: recentPrices_legacy_def sampleRecent_def env_timeValue env_parseFloat lastMonth_sample)
  note T = classification_in_double_arithmetic[OF n, of env_sample ?ps]
  from T l have "calculateConfidence_legacy env_sample ?ps = High"
    by (simp add: stats_100_105)
  moreover from T have "jlt (Fin (5 / 2)) (jmul (Fin (205 / 2)) (round64 (1 / 10)))"
    by (simp add: stats_100_105 split: if_splits)
  ultimately show ?thesis using n l stats_100_105 by simp
qed

text \<open>
  C6 as stated fails: the prices 4, 5, 6, 7, 8 have the arithmetic mean 6 and the mean
  absolute deviation 6/5, which is not below 0.20 times 6, so that the stated rule gives
  Low; the estimator computes the deviation 1.2 and the threshold 1.2000000000000002, and
  gives Medium.
\<close>

theorem classification_exact_rule_counterexample:
  "map priceNumber (sampleRecent [4, 5, 6, 7, 8]) = map Fin [4, 5, 6, 7, 8]
   \<and> mean [4, 5, 6, 7, 8] = 6 \<and> meanAbsDev [4, 5, 6, 7, 8] = 6 / 5
   \<and> \<not> meanAbsDev [4, 5, 6, 7, 8] < 0.10 * mean [4, 5, 6, 7, 8]
   \<and> \<not> meanAbsDev [4, 5, 6, 7, 8] < 0.20 * mean [4, 5, 6, 7, 8]
   \<and> confidenceLevel (calculateAverageAndDeviation (sampleRecent [4, 5, 6, 7, 8])) = Medium"
  unfolding stats_4_to_8 by (simp add: sampleRecent_def mean_def meanAbsDev_def)

text \<open>
  C3, as the code has it. The classification is monotonically non-increasing in the
  dispersion the estimator computes: for two non-empty lists whose computed
  \<open>averagePrice\<close> is the same number, when the computed \<open>averageDeviation\<close> of the
  second is greater than or equal to that of the first, the level of the second is not
  higher than the level of the first.
\<close>

theorem confidence_monotone_in_computed_dispersion:
  assumes "rp1 \<noteq> []" and "rp2 \<noteq> []"
    and "averagePrice (calculateAverageAndDeviation rp1) = averagePrice (calculateAverageAndDeviation rp2)"
    and "jle (averageDeviation (calculateAverageAndDeviation rp1))
             (averageDeviation (calculateAverageAndDeviation rp2))"
  shows "levelRank (confidenceLevel (calculateAverageAndDeviation rp2))
           \<le> levelRank (confidenceLevel (calculateAverageAndDeviation rp1))"
  using jlt_mono[OF assms(4)] assms(3)
  by (simp add: level_of_stats[OF assms(1)] level_of_stats[OF assms(2)])

theorem confidence_monotone_in_computed_dispersion_witness:
  "sampleRecent [100, 100] \<noteq> [] \<and> sampleRecent [50, 150] \<noteq> []
   \<and> averagePrice (calculateAverageAndDeviation (sampleRecent [100, 100])) =
       averagePrice (calculateAverageAndDeviation (sampleRecent [50, 150]))
   \<and> jle (averageDeviation (calculateAverageAndDeviation (sampleRecent [100, 100])))
          (averageDeviation (calculateAverageAndDeviation (sampleRecent [50, 150])))
   \<and> confidenceLevel (calculateAverageAndDeviation (sampleRecent [100, 100])) = High
   \<and> confidenceLevel (calculateAverageAndDeviation (sampleRecent [50, 150])) = Low
   \<and> levelRank (confidenceLevel (calculateAverageAndDeviation (sampleRecent [50, 150])))
       \<le> levelRank (confidenceLevel (calculateAverageAndDeviation (sampleRecent [100, 100])))"
proof -
  have a: "sampleRecent [100, 100] \<noteq> []" and b: "sampleRecent [50, 150] \<noteq> []"
    by (simp_all add: sampleRecent_def)
  have m: "averagePrice (calculateAverageAndDeviation (sampleRecent [100, 100])) =
       averagePrice (calculateAverageAndDeviation (sampleRecent [50, 150]))"
    by (simp add: stats_100_100 stats_50_150)
  have d: "jle (averageDeviation (calculateAverageAndDeviation (sampleRecent [100, 100])))
          (averageDeviation (calculateAverageAndDeviation (sampleRecent [50, 150])))"
    by (simp add: stats_100_100 stats_50_150 jle_def)
  from confidence_monotone_in_computed_dispersion[OF a b m d] a b m d
  show ?thesis by (simp add: stats_100_100 stats_50_150)
qed

text \<open>
  C3 as stated fails: the lists 2, 2, 2, 3, 3 and 2, 2, 2, 2, 2, 2, 3, 3, 3, 3 have the same
  arithmetic mean and the same mean absolute deviation, and the estimator gives Low for
  the first and Medium for the second, whose sum of deviations rounds differently.
\<close>

theorem confidence_monotone_exact_counterexample:
  "mean [2, 2, 2, 3, 3] = mean [2, 2, 2, 2, 2, 2, 3, 3, 3, 3]
   \<and> meanAbsDev [2, 2, 2, 3, 3] \<le> meanAbsDev [2, 2, 2, 2, 2, 2, 3, 3, 3, 3]
   \<and> map priceNumber (sampleRecent [2, 2, 2, 3, 3]) = map Fin [2, 2, 2, 3, 3]
   \<and> map priceNumber (sampleRecent [2, 2, 2, 2, 2, 2, 3, 3, 3, 3]) = map Fin [2, 2, 2, 2, 2, 2, 3, 3, 3, 3]
   \<and> confidenceLevel (calculateAverageAndDeviation (sampleRecent [2, 2, 2, 3, 3])) = Low
   \<and> confidenceLevel (calculateAverageAndDeviation (sampleRecent [2, 2, 2, 2, 2, 2, 3, 3, 3, 3])) = Medium
   \<and> levelRank Low < levelRank Medium"
  unfolding stats_5_of_2_and_3 stats_10_of_2_and_3
  by (simp add: sampleRecent_def mean_def meanAbsDev_def)

section \<open>Confidence estimator: the two date filters\<close>

text \<open>
  C7, as the code has it. The single-window form and the multi-window form compare in
  opposite directions. The single-window form keeps exactly the transactions whose date is
  valid and on or before \<open>lastMonth\<close>, the multi-window form exactly those whose date is
  valid and on or after the start of the window, the start instant included; the level of
  the single-window form is that of the transactions it keeps. \<open>lastMonth\<close> is one
  calendar month back: the day of the same number and the same time of day in the month
  before, in local time, wherever the calendar puts it, not a fixed 30 days back.
\<close>

theorem filter_directions:
  "recentPrices_legacy e prices =
     map (\<lambda>t. parseFloat e (price t))
       (filter (\<lambda>t. \<exists>d. timeValue e (date t) = Some d \<and> d \<le> lastMonth e) prices)
   \<and> calculateConfidence_legacy e prices =
       calculateConfidence_legacy e
         (filter (\<lambda>t. \<exists>d. timeValue e (date t) = Some d \<and> d \<le> lastMonth e) prices)
   \<and> filterPrices e prices days =
       map (\<lambda>t. \<lparr>priceNumber = parseFloat e (price t), dateField = date t\<rparr>)
         (filter (\<lambda>t. \<exists>d. timeValue e (date t) = Some d \<and> startDate e days \<le> d) prices)
   \<and> lastMonth e =
       utcTime e (MakeDate
         (MakeDay (YearFromTime (localTime e (nowSingle e)))
            (MonthFromTime (localTime e (nowSingle e)) - 1)
            (DateFromTime (localTime e (nowSingle e))))
         (TimeWithinDay (localTime e (nowSingle e))))"
proof -
  have k: "(\<lambda>t. case timeValue e (date t) of None \<Rightarrow> False | Some d \<Rightarrow> d \<le> lastMonth e) =
           (\<lambda>t. \<exists>d. timeValue e (date t) = Some d \<and> d \<le> lastMonth e)"
    by (auto split: option.splits)
  have s: "(\<lambda>t. case timeValue e (date t) of None \<Rightarrow> False | Some d \<Rightarrow> startDate e days \<le> d) =
           (\<lambda>t. \<exists>d. timeValue e (date t) = Some d \<and> startDate e days \<le> d)"
    by (auto split: option.splits)
  have r: "recentPrices_legacy e prices =
     map (\<lambda>t. parseFloat e (price t))
       (filter (\<lambda>t. \<exists>d. timeValue e (date t) = Some d \<and> d \<le> lastMonth e) prices)"
    by (simp add: recentPrices_legacy_def k)
  have i: "recentPrices_legacy e
             (filter (\<lambda>t. \<exists>d. timeValue e (date t) = Some d \<and> d \<le> lastMonth e) prices) =
           recentPrices_legacy e prices"
    by (simp add: recentPrices_legacy_def k)
  have c: "calculateConfidence_legacy e prices =
       calculateConfidence_legacy e
         (filter (\<lambda>t. \<exists>d. timeValue e (date t) = Some d \<and> d \<le> lastMonth e) prices)"
    by (simp add: calculateConfidence_legacy_def i)
  have f: "filterPrices e prices days =
       map (\<lambda>t. \<lparr>priceNumber = parseFloat e (price t), dateField = date t\<rparr>)
         (filter (\<lambda>t. \<exists>d. timeValue e (date t) = Some d \<and> startDate e days \<le> d) prices)"
    by (simp add: filterPrices_def s)
  have l: "lastMonth e =
       utcTime e (MakeDate
         (MakeDay (YearFromTime (localTime e (nowSingle e)))
            (MonthFromTime (localTime e (nowSingle e)) - 1)
            (DateFromTime (localTime e (nowSingle e))))
         (TimeWithinDay (localTime e (nowSingle e))))"
    by (simp add: lastMonth_def Let_def)
  from r c f l show ?thesis by blast
qed

text \<open>
  C7 as stated fails on the 30 days: on 30 June the cutoff of the single-window form is
  30 May, 31 days back, and a transaction dated 31 May, which is on or before the instant
  30 days back, is not kept.
\<close>

theorem legacy_lookback_counterexample:
  "lastMonth env_sample = nowSingle env_sample - 31 * msPerDay
   \<and> timeValue env_sample (Str ''2024-05-31'') = Some 1717113600000
   \<and> 1717113600000 \<le> nowSingle env_sample - 30 * msPerDay
   \<and> recentPrices_legacy env_sample
        [\<lparr>price = Str ''100.00'', date = Str ''2024-05-31'', gradingCompany = ''PSA'', gradeNumber = ''10.0''\<rparr>] = []
   \<and> calculateConfidence_legacy env_sample
        [\<lparr>price = Str ''100.00'', date = Str ''2024-05-31'', gradingCompany = ''PSA'', gradeNumber = ''10.0''\<rparr>] = Low"
  by (simp add: calculateConfidence_legacy_def recentPrices_legacy_def env_timeValue lastMonth_sample
      nowSingle_sample msPerDay_def)

section \<open>Resolver: when it fails\<close>

lemma handler_resolver_error:
  assumes "slab \<noteq> []" and "snd (getInternalId up slab []) = Inl err"
  shows "handler e up (Some slab) gc gn = ([Cert slab], Send 500 ''Error fetching data'')"
proof -
  have "getInternalId up slab [] = ([Cert slab], Inl err)"
    using assms(2) getInternalId_fst[of up slab "[]"] by (simp add: prod_eq_iff)
  then show ?thesis using assms(1) by (simp add: handler_def tryGetPrices_def)
qed

lemma getInternalId_snd:
  "snd (getInternalId up slab sent) =
     (case fetch_json up sent (Cert slab) of Inl e \<Rightarrow> Inl e
      | Inr data \<Rightarrow> path data [''data'', ''cert'', ''asset'', ''id''])"
  by (simp add: getInternalId_def Let_def)

lemma path_snoc: "path v (ks @ [k]) = (case path v ks of Inl e \<Rightarrow> Inl e | Inr w \<Rightarrow> getProp w k)"
  by (induction ks arbitrary: v) (auto split: sum.splits)

lemma path_id:
  "path body [''data'', ''cert'', ''asset'', ''id''] =
     (case path body [''data'', ''cert'', ''asset''] of Inl e \<Rightarrow> Inl e | Inr w \<Rightarrow> getProp w ''id'')"
  using path_snoc[of body "[''data'', ''cert'', ''asset'']" "''id''"] by simp

text \<open>
  C4, as the code has it. \<open>getInternalId\<close> fails, and the handler answers 500, when
  \<open>fetch\<close> rejects, when the body is not JSON, or when the parsed body lacks the path
  \<open>data.cert.asset\<close> (a step is missing or \<open>null\<close>). The HTTP status is not examined:
  when the parsed body has a value at \<open>data.cert.asset.id\<close>, that value is returned,
  whatever the status.
\<close>

theorem getInternalId_outcomes:
  "(up sent (Cert slab) = Rejected \<longrightarrow> snd (getInternalId up slab sent) = Inl FetchError) \<and>
   (up sent (Cert slab) = Responded status None \<longrightarrow> snd (getInternalId up slab sent) = Inl SyntaxError) \<and>
   (up sent (Cert slab) = Responded status (Some body) \<longrightarrow>
      path body [''data'', ''cert'', ''asset''] \<in> {Inl TypeError, Inr Undefined, Inr Null} \<longrightarrow>
      snd (getInternalId up slab sent) = Inl TypeError) \<and>
   (up sent (Cert slab) = Responded status (Some body) \<longrightarrow>
      path body [''data'', ''cert'', ''asset''] = Inr (Obj kvs) \<longrightarrow> map_of kvs ''id'' = Some v \<longrightarrow>
      snd (getInternalId up slab sent) = Inr v) \<and>
   (slab \<noteq> [] \<longrightarrow> snd (getInternalId up slab []) = Inl err \<longrightarrow>
      handler e up (Some slab) gc gn = ([Cert slab], Send 500 ''Error fetching data''))"
proof (intro conjI impI)
  assume "up sent (Cert slab) = Rejected"
  then show "snd (getInternalId up slab sent) = Inl FetchError"
    by (simp add: getInternalId_snd fetch_json_def)
next
  assume "up sent (Cert slab) = Responded status None"
  then show "snd (getInternalId up slab sent) = Inl SyntaxError"
    by (simp add: getInternalId_snd fetch_json_def)
next
  assume "up sent (Cert slab) = Responded status (Some body)"
    and "path body [''data'', ''cert'', ''asset''] \<in> {Inl TypeError, Inr Undefined, Inr Null}"
  then show "snd (getInternalId up slab sent) = Inl TypeError"
    by (auto simp: getInternalId_snd fetch_json_def path_id simp del: path.simps)
next
  assume "up sent (Cert slab) = Responded status (Some body)"
    and "path body [''data'', ''cert'', ''asset''] = Inr (Obj kvs)" and "map_of kvs ''id'' = Some v"
  then show "snd (getInternalId up slab sent) = Inr v"
    by (simp add: getInternalId_snd fetch_json_def path_id del: path.simps)
next
  assume "slab \<noteq> []" and "snd (getInternalId up slab []) = Inl err"
  then show "handler e up (Some slab) gc gn = ([Cert slab], Send 500 ''Error fetching data'')"
    by (rule handler_resolver_error)
qed

theorem getInternalId_outcomes_witness:
  "up_down [] (Cert ''12345678'') = Rejected
   \<and> snd (getInternalId up_down ''12345678'' []) = Inl FetchError
   \<and> ''12345678'' \<noteq> []
   \<and> handler env_sample up_down (Some ''12345678'') None None =
       ([Cert ''12345678''], Send 500 ''Error fetching data'')
   \<and> up_html [] (Cert ''12345678'') = Responded 502 None
   \<and> snd (getInternalId up_html ''12345678'' []) = Inl SyntaxError
   \<and> up_unknown [] (Cert ''12345678'') = Responded 200 (Some (Obj [(''data'', Obj [(''cert'', Null)])]))
   \<and> path (Obj [(''data'', Obj [(''cert'', Null)])]) [''data'', ''cert'', ''asset'']
       \<in> {Inl TypeError, Inr Undefined, Inr Null}
   \<and> snd (getInternalId up_unknown ''12345678'' []) = Inl TypeError
   \<and> up_scenario [] (Cert ''12345678'') = Responded 200 (Some (certBody (Str ''A1'')))
   \<and> path (certBody (Str ''A1'')) [''data'', ''cert'', ''asset''] =
       Inr (Obj [(''id'', Str ''A1''), (''name'', Str ''Card'')])
   \<and> map_of [(''id'', Str ''A1''), (''name'', Str ''Card'')] ''id'' = Some (Str ''A1'')
   \<and> snd (getInternalId up_scenario ''12345678'' []) = Inr (Str ''A1'')"
proof -
  have d: "up_down [] (Cert ''12345678'') = Rejected" by (simp add: up_down_def)
  have h: "up_html [] (Cert ''12345678'') = Responded 502 None" by (simp add: up_html_def)
  have u: "up_unknown [] (Cert ''12345678'') = Responded 200 (Some (Obj [(''data'', Obj [(''cert'', Null)])]))"
    by (simp add: up_unknown_def)
  have pu: "path (Obj [(''data'', Obj [(''cert'', Null)])]) [''data'', ''cert'', ''asset'']
       \<in> {Inl TypeError, Inr Undefined, Inr Null}" by simp
  have s: "up_scenario [] (Cert ''12345678'') = Responded 200 (Some (certBody (Str ''A1'')))" by simp
  have ps: "path (certBody (Str ''A1'')) [''data'', ''cert'', ''asset''] =
       Inr (Obj [(''id'', Str ''A1''), (''name'', Str ''Card'')])" by (simp add: certBody_def)
  have m: "map_of [(''id'', Str ''A1''), (''name'', Str ''Card'')] ''id'' = Some (Str ''A1'')" by simp
  have n: "''12345678'' \<noteq> []" by simp
  note T = getInternalId_outcomes
  from T[of up_down "[]" "''12345678''"] d
  have 1: "snd (getInternalId up_down ''12345678'' []) = Inl FetchError" by blast
  from T[of up_down "[]" "''12345678''" _ _ _ _ FetchError env_sample None None] n 1
  have 2: "handler env_sample up_down (Some ''12345678'') None None =
       ([Cert ''12345678''], Send 500 ''Error fetching data'')" by blast
  from T[of up_html "[]" "''12345678''" 502] h
  have 3: "snd (getInternalId up_html ''12345678'' []) = Inl SyntaxError" by blast
  from T[of up_unknown "[]" "''12345678''" 200 "Obj [(''data'', Obj [(''cert'', Null)])]"] u pu
  have 4: "snd (getInternalId up_unknown ''12345678'' []) = Inl TypeError" by blast
  from T[of up_scenario "[]" "''12345678''" 200 "certBody (Str ''A1'')"
        "[(''id'', Str ''A1''), (''name'', Str ''Card'')]" "Str ''A1''"] s ps m
  have 5: "snd (getInternalId up_scenario ''12345678'' []) = Inr (Str ''A1'')" by blast
  from d h u pu s ps m n 1 2 3 4 5 show ?thesis by blast
qed

text \<open>
  C4 as stated fails: a response with status 500 and a well-formed body is not an error
  for \<open>getInternalId\<close>, which returns the id, and the handler answers with JSON.
\<close>

theorem getInternalId_status_counterexample:
  "up_status500 [] (Cert ''12345678'') = Responded 500 (Some (certBody (Str ''A1'')))
   \<and> getInternalId up_status500 ''12345678'' [] = ([Cert ''12345678''], Inr (Str ''A1''))
   \<and> snd (handler env_sample up_status500 (Some ''12345678'') None None) =
       Json [] (calculateConfidence env_sample [])"
  by (simp add: run_defs handler_def tryGetPrices_def)


end
